theory Spec2Isabelle
  imports Complex_Main
begin

section \<open>Tabular data\<close>

text \<open>
  The pipeline works on pandas data frames whose columns are added and renamed as the
  rows travel through it. A frame is modelled by its column labels and its rows; a
  row is the association list a Python dict would be. Cells written to a CSV or JSON
  file hold text, numbers or nothing (\<open>NaN\<close>); \<open>Ts y m d\<close> is a timestamp at
  midnight produced by \<open>pd.to_datetime\<close>, and \<open>NaT\<close> its missing value. Numbers are
  exact rationals (the rounding of floating point is not modelled); \<open>Inf True\<close> and
  \<open>Inf False\<close> are the two infinities a division by zero produces. Python's
  \<open>None\<close> in an object column is not distinguished from \<open>NaN\<close>. \<open>Obj j\<close> is
  any other value a JSON document brings in: a boolean, a list, an object.

  A JSON value is what \<open>response.json()\<close> and \<open>json.load\<close> return; an object
  lists each of its keys once.
\<close>

datatype json =
    JNull | JBool bool | JNum rat | JStr string | JArr "json list" | JObj "(string \<times> json) list"

datatype cell = Str string | Num rat | Inf bool | Ts nat nat nat | NaN | NaT | Obj json

type_synonym row = "(string \<times> cell) list"

record dataframe =
  columns :: "string list"
  rows :: "row list"

datatype py_error =
    KeyError cell
  | IndexError
  | ValueError
  | TypeError
  | AttributeError
  | RequestException
  | OSError

text \<open>Sequencing of computations that may raise: the first exception wins.\<close>

definition ebind :: "'e + 'a \<Rightarrow> ('a \<Rightarrow> 'e + 'b) \<Rightarrow> 'e + 'b" where
  "ebind m f = (case m of Inl e \<Rightarrow> Inl e | Inr v \<Rightarrow> f v)"

fun emap :: "('a \<Rightarrow> 'e + 'b) \<Rightarrow> 'a list \<Rightarrow> 'e + 'b list" where
  "emap f [] = Inr []"
| "emap f (x # xs) =
     (case f x of
        Inl e \<Rightarrow> Inl e
      | Inr y \<Rightarrow> (case emap f xs of Inl e \<Rightarrow> Inl e | Inr ys \<Rightarrow> Inr (y # ys)))"

text \<open>\<open>d[k]\<close> on a dict raises \<open>KeyError\<close> for a missing key.\<close>

definition getitem :: "row \<Rightarrow> string \<Rightarrow> py_error + cell" where
  "getitem d k = (case map_of d k of None \<Rightarrow> Inl (KeyError (Str k)) | Some v \<Rightarrow> Inr v)"

text \<open>A cell of a frame's row; a label the row does not carry reads as \<open>NaN\<close>.\<close>

definition cell_at :: "row \<Rightarrow> string \<Rightarrow> cell" where
  "cell_at r c = (case map_of r c of None \<Rightarrow> NaN | Some v \<Rightarrow> v)"

fun row_set :: "string \<Rightarrow> cell \<Rightarrow> row \<Rightarrow> row" where
  "row_set k v [] = [(k, v)]"
| "row_set k v ((k', v') # r) = (if k' = k then (k, v) # r else (k', v') # row_set k v r)"

text \<open>\<open>df[c] = ...\<close>: every row gets the cell computed from it; a new label goes last.\<close>

definition set_col :: "string \<Rightarrow> (row \<Rightarrow> cell) \<Rightarrow> dataframe \<Rightarrow> dataframe" where
  "set_col c f df =
     \<lparr>columns = (if c \<in> set (columns df) then columns df else columns df @ [c]),
      rows = map (\<lambda>r. row_set c (f r) r) (rows df)\<rparr>"

text \<open>\<open>df[mask]\<close>: the rows the mask keeps, under the same labels.\<close>

definition select_rows :: "(row \<Rightarrow> bool) \<Rightarrow> dataframe \<Rightarrow> dataframe" where
  "select_rows p df = \<lparr>columns = columns df, rows = filter p (rows df)\<rparr>"

text \<open>\<open>df.rename(columns={a: b}, inplace=True)\<close>.\<close>

definition rename_col :: "string \<Rightarrow> string \<Rightarrow> dataframe \<Rightarrow> dataframe" where
  "rename_col a b df =
     \<lparr>columns = map (\<lambda>c. if c = a then b else c) (columns df),
      rows = map (map (\<lambda>(k, v). (if k = a then b else k, v))) (rows df)\<rparr>"

text \<open>
  \<open>pd.concat([a, b], ignore_index=True)\<close>: the labels of \<open>a\<close>, then those of \<open>b\<close>
  that \<open>a\<close> lacks; every row is re-indexed to these labels, reading \<open>NaN\<close> for a
  label its own frame does not have.
\<close>

definition reindex :: "string list \<Rightarrow> string list \<Rightarrow> row \<Rightarrow> row" where
  "reindex own cs r = map (\<lambda>c. (c, if c \<in> set own then cell_at r c else NaN)) cs"

definition concat_cols :: "dataframe \<Rightarrow> dataframe \<Rightarrow> string list" where
  "concat_cols a b = columns a @ filter (\<lambda>c. c \<notin> set (columns a)) (remdups (columns b))"

definition pd_concat :: "dataframe \<Rightarrow> dataframe \<Rightarrow> dataframe" where
  "pd_concat a b =
     \<lparr>columns = concat_cols a b,
      rows = map (reindex (columns a) (concat_cols a b)) (rows a)
           @ map (reindex (columns b) (concat_cols a b)) (rows b)\<rparr>"

text \<open>\<open>pd.DataFrame(data)\<close> for a list of dicts that all carry the given keys.\<close>

definition frame_of_records :: "string list \<Rightarrow> row list \<Rightarrow> dataframe" where
  "frame_of_records keys recs =
     (if recs = [] then \<lparr>columns = [], rows = []\<rparr> else \<lparr>columns = keys, rows = recs\<rparr>)"

section \<open>Numbers and dates as text\<close>

fun digits :: "nat \<Rightarrow> string" where
  "digits n = (if n < 10 then [''0123456789'' ! n] else digits (n div 10) @ [''0123456789'' ! (n mod 10)])"

declare digits.simps [simp del]

text \<open>\<open>str(i)\<close> and the format \<open>{i:02d}\<close> of a Python int.\<close>

definition py_str :: "int \<Rightarrow> string" where
  "py_str i = (if i < 0 then CHR ''-'' # digits (nat (- i)) else digits (nat i))"

definition fmt_02d :: "int \<Rightarrow> string" where
  "fmt_02d i = (if length (py_str i) < 2 then CHR ''0'' # py_str i else py_str i)"

definition is_digit :: "char \<Rightarrow> bool" where
  "is_digit c = (c \<in> set ''0123456789'')"

definition digit_val :: "char \<Rightarrow> nat" where
  "digit_val c = of_char c - 48"

definition nat_of_digits :: "string \<Rightarrow> nat" where
  "nat_of_digits s = foldl (\<lambda>n c. 10 * n + digit_val c) 0 s"

definition leap_year :: "nat \<Rightarrow> bool" where
  "leap_year y = (y mod 4 = 0 \<and> (y mod 100 \<noteq> 0 \<or> y mod 400 = 0))"

definition days_in_month :: "nat \<Rightarrow> nat \<Rightarrow> nat" where
  "days_in_month y m =
     (if m = 2 then (if leap_year y then 29 else 28)
      else if m = 4 \<or> m = 6 \<or> m = 9 \<or> m = 11 then 30 else 31)"

type_synonym date = "nat \<times> nat \<times> nat"

definition valid_date :: "date \<Rightarrow> bool" where
  "valid_date t = (case t of (y, m, d) \<Rightarrow> 1 \<le> m \<and> m \<le> 12 \<and> 1 \<le> d \<and> d \<le> days_in_month y m)"

text \<open>
  \<open>pd.to_datetime\<close> of one string. The model reads the ISO shapes the program itself
  builds and stores (\<open>YYYY-MM-DD\<close>, \<open>YYYY-MM\<close>, \<open>YYYY\<close>); any other text raises, as
  does a month or day out of range.
\<close>

definition to_datetime_str :: "string \<Rightarrow> py_error + date" where
  "to_datetime_str s =
     (let ok = (\<lambda>t. if valid_date t then Inr t else Inl ValueError) in
      case s of
        [a, b, c, d, h1, e, f, h2, g, h] \<Rightarrow>
          if list_all is_digit [a, b, c, d, e, f, g, h] \<and> h1 = CHR ''-'' \<and> h2 = CHR ''-''
          then ok (nat_of_digits [a, b, c, d], nat_of_digits [e, f], nat_of_digits [g, h])
          else Inl ValueError
      | [a, b, c, d, h1, e, f] \<Rightarrow>
          if list_all is_digit [a, b, c, d, e, f] \<and> h1 = CHR ''-''
          then ok (nat_of_digits [a, b, c, d], nat_of_digits [e, f], 1)
          else Inl ValueError
      | [a, b, c, d] \<Rightarrow>
          if list_all is_digit [a, b, c, d] then ok (nat_of_digits [a, b, c, d], 1, 1)
          else Inl ValueError
      | _ \<Rightarrow> Inl ValueError)"

text \<open>\<open>t + pd.offsets.MonthEnd(0)\<close>: the last day of the month of \<open>t\<close>.\<close>

definition month_end_of :: "date \<Rightarrow> date" where
  "month_end_of t = (case t of (y, m, d) \<Rightarrow> (y, m, days_in_month y m))"

definition date_le :: "date \<Rightarrow> date \<Rightarrow> bool" where
  "date_le s t =
     (case s of (y, m, d) \<Rightarrow> case t of (y', m', d') \<Rightarrow>
        y < y' \<or> (y = y' \<and> (m < m' \<or> (m = m' \<and> d \<le> d'))))"

text \<open>The timestamp as \<open>to_csv\<close> writes it and \<open>strftime('%Y-%m-%d')\<close> formats it.\<close>

definition pad_left :: "nat \<Rightarrow> string \<Rightarrow> string" where
  "pad_left w s = replicate (w - length s) (CHR ''0'') @ s"

definition iso_of_date :: "date \<Rightarrow> string" where
  "iso_of_date t =
     (case t of (y, m, d) \<Rightarrow>
        pad_left 4 (digits y) @ ''-'' @ pad_left 2 (digits m) @ ''-'' @ pad_left 2 (digits d))"

text \<open>
  \<open>pd.to_datetime\<close> of a column: text is parsed, a missing value becomes \<open>NaT\<close>, a
  timestamp stays. A number in a date column is outside the modelled inputs and is
  refused; so is any other object.
\<close>

definition to_datetime_cell :: "cell \<Rightarrow> py_error + cell" where
  "to_datetime_cell c =
     (case c of
        Str s \<Rightarrow> (case to_datetime_str s of Inl e \<Rightarrow> Inl e | Inr (y, m, d) \<Rightarrow> Inr (Ts y m d))
      | Ts y m d \<Rightarrow> Inr (Ts y m d)
      | NaN \<Rightarrow> Inr NaT
      | NaT \<Rightarrow> Inr NaT
      | Num n \<Rightarrow> Inl ValueError
      | Inf b \<Rightarrow> Inl ValueError
      | Obj j \<Rightarrow> Inl TypeError)"

definition to_datetime_col :: "string \<Rightarrow> dataframe \<Rightarrow> py_error + dataframe" where
  "to_datetime_col c df =
     (case emap (\<lambda>r. case to_datetime_cell (cell_at r c) of
                        Inl e \<Rightarrow> Inl e | Inr v \<Rightarrow> Inr (row_set c v r)) (rows df) of
        Inl e \<Rightarrow> Inl e
      | Inr rs \<Rightarrow> Inr \<lparr>columns = columns df, rows = rs\<rparr>)"

text \<open>Comparison of a date cell with a timestamp; \<open>NaT\<close> compares false both ways.\<close>

definition cell_in_range :: "date \<Rightarrow> date \<Rightarrow> cell \<Rightarrow> bool" where
  "cell_in_range lo hi c =
     (case c of Ts y m d \<Rightarrow> date_le lo (y, m, d) \<and> date_le (y, m, d) hi | _ \<Rightarrow> False)"

text \<open>
  \<open>pd.api.types.is_datetime64_dtype\<close>, which also decides whether the \<open>.dt\<close>
  accessor exists: the column holds a timestamp, and nothing but timestamps and
  missing values. A column as \<open>read_csv\<close> returns it never has this type.
\<close>

definition is_ts :: "cell \<Rightarrow> bool" where
  "is_ts c = (case c of Ts y m d \<Rightarrow> True | NaT \<Rightarrow> True | _ \<Rightarrow> False)"

definition is_datetime64_dtype :: "string \<Rightarrow> dataframe \<Rightarrow> bool" where
  "is_datetime64_dtype c df =
     (list_ex (\<lambda>r. is_ts (cell_at r c)) (rows df)
      \<and> list_all (\<lambda>r. is_ts (cell_at r c) \<or> cell_at r c = NaN) (rows df))"

text \<open>
  The \<open>.str\<close> accessor exists on a column of text (object type): one that holds a
  string. Its methods turn every cell that is not a string into \<open>NaN\<close>.
\<close>

definition is_object_dtype :: "string \<Rightarrow> dataframe \<Rightarrow> bool" where
  "is_object_dtype c df = list_ex (\<lambda>r. case cell_at r c of Str s \<Rightarrow> True | _ \<Rightarrow> False) (rows df)"

definition str_method :: "(string \<Rightarrow> string) \<Rightarrow> cell \<Rightarrow> cell" where
  "str_method f c = (case c of Str s \<Rightarrow> Str (f s) | _ \<Rightarrow> NaN)"

text \<open>\<open>str.upper()\<close> and \<open>str.replace('-', ' ')\<close>, on ASCII text.\<close>

definition upper_char :: "char \<Rightarrow> char" where
  "upper_char c =
     (case map_of (zip ''abcdefghijklmnopqrstuvwxyz'' ''ABCDEFGHIJKLMNOPQRSTUVWXYZ'') c of
        None \<Rightarrow> c | Some u \<Rightarrow> u)"

definition upper :: "string \<Rightarrow> string" where
  "upper s = map upper_char s"

definition replace_hyphen :: "string \<Rightarrow> string" where
  "replace_hyphen s = map (\<lambda>c. if c = CHR ''-'' then CHR '' '' else c) s"

text \<open>\<open>x in s\<close> for strings, and \<open>s.startswith(p)\<close>.\<close>

fun contains :: "string \<Rightarrow> string \<Rightarrow> bool" where
  "contains sub [] = (sub = [])"
| "contains sub (c # cs) = (take (length sub) (c # cs) = sub \<or> contains sub cs)"

definition startswith :: "string \<Rightarrow> string \<Rightarrow> bool" where
  "startswith s p = (take (length p) s = p)"

text \<open>
  Python on a parsed JSON value \<open>x\<close>: the test \<open>k in x\<close> for a string \<open>k\<close>
  (a key of a dict, an element of a list, a substring of a string; \<open>TypeError\<close> on
  \<open>None\<close>, a number or a boolean), the subscript \<open>x[k]\<close> (a dict only), the
  subscript \<open>x[0]\<close>, and the truth value of \<open>x\<close>.
\<close>

definition py_in :: "string \<Rightarrow> json \<Rightarrow> py_error + bool" where
  "py_in k x =
     (case x of
        JObj kvs \<Rightarrow> Inr (k \<in> fst ` set kvs)
      | JArr xs \<Rightarrow> Inr (JStr k \<in> set xs)
      | JStr s \<Rightarrow> Inr (contains k s)
      | _ \<Rightarrow> Inl TypeError)"

definition py_item :: "json \<Rightarrow> string \<Rightarrow> py_error + json" where
  "py_item x k =
     (case x of
        JObj kvs \<Rightarrow> (case map_of kvs k of None \<Rightarrow> Inl (KeyError (Str k)) | Some v \<Rightarrow> Inr v)
      | _ \<Rightarrow> Inl TypeError)"

definition py_first :: "json \<Rightarrow> py_error + json" where
  "py_first x =
     (case x of
        JArr xs \<Rightarrow> (case xs of [] \<Rightarrow> Inl IndexError | y # ys \<Rightarrow> Inr y)
      | JStr s \<Rightarrow> (case s of [] \<Rightarrow> Inl IndexError | c # cs \<Rightarrow> Inr (JStr [c]))
      | JObj kvs \<Rightarrow> Inl (KeyError (Num 0))
      | _ \<Rightarrow> Inl TypeError)"

definition truthy :: "json \<Rightarrow> bool" where
  "truthy x =
     (case x of
        JNull \<Rightarrow> False
      | JBool b \<Rightarrow> b
      | JNum q \<Rightarrow> q \<noteq> 0
      | JStr s \<Rightarrow> s \<noteq> []
      | JArr xs \<Rightarrow> xs \<noteq> []
      | JObj kvs \<Rightarrow> kvs \<noteq> [])"

text \<open>\<open>k1 in x and k2 in x[k1]\<close>, and \<open>x[k1][k2]\<close>.\<close>

definition has_field :: "string \<Rightarrow> string \<Rightarrow> json \<Rightarrow> py_error + bool" where
  "has_field k1 k2 x =
     ebind (py_in k1 x) (\<lambda>present.
       if \<not> present then Inr False else ebind (py_item x k1) (\<lambda>d. py_in k2 d))"

definition field :: "string \<Rightarrow> string \<Rightarrow> json \<Rightarrow> py_error + json" where
  "field k1 k2 x = ebind (py_item x k1) (\<lambda>d. py_item d k2)"

text \<open>A JSON value as the cell of a frame.\<close>

definition cell_of_json :: "json \<Rightarrow> cell" where
  "cell_of_json x =
     (case x of JStr s \<Rightarrow> Str s | JNum q \<Rightarrow> Num q | JNull \<Rightarrow> NaN | _ \<Rightarrow> Obj x)"

text \<open>
  Division of two numeric columns, cell by cell. A column of text cannot be divided
  (\<open>TypeError\<close>); a missing operand gives \<open>NaN\<close>; a zero divisor gives an
  infinity, or \<open>NaN\<close> for \<open>0 / 0\<close>.
\<close>

definition div_cell :: "cell \<Rightarrow> cell \<Rightarrow> py_error + cell" where
  "div_cell a b =
     (case (a, b) of
        (Num x, Num y) \<Rightarrow>
          Inr (if y \<noteq> 0 then Num (x / y) else if x = 0 then NaN else Inf (0 < x))
      | (Num x, Inf s) \<Rightarrow> Inr (Num 0)
      | (Inf s, Num y) \<Rightarrow> Inr (Inf (if 0 \<le> y then s else \<not> s))
      | (Inf s, Inf t) \<Rightarrow> Inr NaN
      | (Num x, NaN) \<Rightarrow> Inr NaN
      | (Inf s, NaN) \<Rightarrow> Inr NaN
      | (NaN, Num y) \<Rightarrow> Inr NaN
      | (NaN, Inf t) \<Rightarrow> Inr NaN
      | (NaN, NaN) \<Rightarrow> Inr NaN
      | _ \<Rightarrow> Inl TypeError)"

section \<open>Building enrichment: category tag and town name\<close>

text \<open>\<open>tagging(d)\<close>: the flags are read in the order of the \<open>if\<close>/\<open>elif\<close> chain, each
  read raising \<open>KeyError\<close> if the row lacks the flag; \<open>None\<close> when no flag is \<open>"Y"\<close>.\<close>

definition tagging :: "row \<Rightarrow> py_error + string option" where
  "tagging d =
     ebind (getitem d ''residential'') (\<lambda>v1.
       if v1 = Str ''Y'' then Inr (Some ''Residential'') else
     ebind (getitem d ''commercial'') (\<lambda>v2.
       if v2 = Str ''Y'' then Inr (Some ''Commercial'') else
     ebind (getitem d ''market_hawker'') (\<lambda>v3.
       if v3 = Str ''Y'' then Inr (Some ''Market and hawker'') else
     ebind (getitem d ''miscellaneous'') (\<lambda>v4.
       if v4 = Str ''Y'' then Inr (Some ''Miscellaneous'') else
     ebind (getitem d ''multistorey_carpark'') (\<lambda>v5.
       if v5 = Str ''Y'' then Inr (Some ''Multi-storey carpark'') else
     ebind (getitem d ''precinct_pavilion'') (\<lambda>v6.
       if v6 = Str ''Y'' then Inr (Some ''Miscellaneous'') else Inr None))))))"

text \<open>
  The priority order as the specification words it: an ordered list of flag and tag,
  the first flag equal to the sentinel wins.
\<close>

definition tag_priority :: "(string \<times> string) list" where
  "tag_priority =
     [(''residential'', ''Residential''),
      (''commercial'', ''Commercial''),
      (''market_hawker'', ''Market and hawker''),
      (''miscellaneous'', ''Miscellaneous''),
      (''multistorey_carpark'', ''Multi-storey carpark''),
      (''precinct_pavilion'', ''Miscellaneous'')]"

fun first_flag :: "(string \<times> string) list \<Rightarrow> row \<Rightarrow> string option" where
  "first_flag [] d = None"
| "first_flag ((f, t) # ps) d = (if map_of d f = Some (Str ''Y'') then Some t else first_flag ps d)"

text \<open>The table \<open>legend\<close> of \<open>enrich_properties_data\<close>.\<close>

definition legend :: "(string \<times> string) list" where
  "legend =
     [(''AMK'', ''ANG MO KIO''), (''BB'', ''BUKIT BATOK''), (''BD'', ''BEDOK''),
      (''BH'', ''BISHAN''), (''BM'', ''BUKIT MERAH''), (''BP'', ''BUKIT PANJANG''),
      (''BT'', ''BUKIT TIMAH''), (''CCK'', ''CHOA CHU KANG''), (''CL'', ''CLEMENTI''),
      (''CT'', ''CENTRAL AREA''), (''GL'', ''GEYLANG''), (''HG'', ''HOUGANG''),
      (''JE'', ''JURONG EAST''), (''JW'', ''JURONG WEST''), (''KWN'', ''KALLANG''),
      (''MP'', ''MARINE PARADE''), (''PG'', ''PUNGGOL''), (''PRC'', ''PASIR RIS''),
      (''QT'', ''QUEENSTOWN''), (''SB'', ''SEMBAWANG''), (''SGN'', ''SERANGOON''),
      (''SK'', ''SENGKANG''), (''TAP'', ''TAMPINES''), (''TG'', ''TENGAH''),
      (''TP'', ''TOA PAYOH''), (''WL'', ''WOODLANDS''), (''YS'', ''YISHUN'')]"

text \<open>
  \<open>legend[code]\<close>: a dict subscript, so an absent key raises \<open>KeyError\<close>; a list
  or a dict cannot be hashed and raises \<open>TypeError\<close>.
\<close>

definition legend_lookup :: "cell \<Rightarrow> py_error + string" where
  "legend_lookup code =
     (case code of
        Str s \<Rightarrow> (case map_of legend s of None \<Rightarrow> Inl (KeyError code) | Some t \<Rightarrow> Inr t)
      | Obj (JArr xs) \<Rightarrow> Inl TypeError
      | Obj (JObj kvs) \<Rightarrow> Inl TypeError
      | _ \<Rightarrow> Inl (KeyError code))"

text \<open>
  The table a CSV or JSON file holds: one cell for each label in every row, and text
  in place of a timestamp (\<open>to_csv\<close> writes a midnight timestamp as its date).
  Reading a file gives such a table too, so no timestamp comes out of a file.
\<close>

definition csv_cell :: "cell \<Rightarrow> cell" where
  "csv_cell c = (case c of Ts y m d \<Rightarrow> Str (iso_of_date (y, m, d)) | NaT \<Rightarrow> NaN | _ \<Rightarrow> c)"

definition disk_table :: "dataframe \<Rightarrow> dataframe" where
  "disk_table df =
     \<lparr>columns = columns df,
      rows = map (\<lambda>r. map (\<lambda>c. (c, csv_cell (cell_at r c))) (columns df)) (rows df)\<rparr>"

section \<open>The outside world\<close>

text \<open>
  Everything the program reads from outside itself is a parameter of the model. A call
  to a remote service either raises (a network failure, a body that is not JSON or not
  CSV) or returns a value. The open-data service answers the initiating request made
  for a dataset with a list of filters, and the \<open>i\<close>-th poll of a download; the
  geocoding service answers the \<open>k\<close>-th attempt made for the \<open>i\<close>-th row of a batch.
  \<open>float_of_text\<close> is Python's \<open>float\<close> on a string (\<open>None\<close>: \<open>ValueError\<close>),
  \<open>text_of_value\<close> is \<open>str\<close> on a value that is not text,
  \<open>now_iso\<close> is \<open>datetime.now().isoformat()\<close> and \<open>today\<close> the date of
  \<open>datetime.now()\<close>. \<open>write_outcome\<close> says what becomes of writing the file of a
  given name: it is written; or opening it raises and the file stays as it was; or the
  write raises after the file was opened and truncated, and the file is left with
  bytes that do not parse.
\<close>

datatype 'a reply = Raises | Returns 'a

record api_filter =
  columnName :: string
  ftype :: string
  fvalue :: string

datatype write_result = Written | OpenFails | WriteFails

record world =
  initiate_download :: "string \<Rightarrow> api_filter list \<Rightarrow> json reply"
  poll_download :: "string \<Rightarrow> api_filter list \<Rightarrow> nat \<Rightarrow> json reply"
  read_csv_url :: "string \<Rightarrow> dataframe reply"
  onemap_search :: "nat \<Rightarrow> nat \<Rightarrow> json reply"
  float_of_text :: "string \<Rightarrow> rat option"
  text_of_value :: "cell \<Rightarrow> string"
  now_iso :: string
  today :: date
  write_outcome :: "string \<Rightarrow> write_result"

section \<open>Remote dataset client: \<open>download_file\<close>\<close>

text \<open>
  The repository has three copies of the extractor: \<open>monthly_data_extractor.py\<close> at the
  top level, \<open>api/monthly_data_extractor.py\<close> and \<open>api/daily_data_extractor.py\<close>. Where
  a function differs between the copies only in a line or two, the model takes the
  copy as an argument.
\<close>

datatype variant = TopMonthly | ApiMonthly | ApiDaily

text \<open>
  \<open>download_file\<close> returns \<open>None\<close> on every failure and tells the failures apart only
  in its log. The model names the return point instead: \<open>InvalidPeriod\<close> for "Year
  must be provided" and "No valid time period specified", \<open>RemoteError\<close> for "Unexpected
  response format", \<open>PollTimeout\<close> for the polling loop that runs out, and
  \<open>Caught e\<close> for the exception the \<open>except\<close> clause logs ("Error downloading
  data"). Along with the result
  it records how many polls were made and the seconds slept between them.
\<close>

datatype fetch_failure = InvalidPeriod | RemoteError | PollTimeout | Caught py_error

record trace =
  polls :: nat
  slept :: nat

definition truthy_int :: "int option \<Rightarrow> bool" where
  "truthy_int x = (case x of None \<Rightarrow> False | Some i \<Rightarrow> i \<noteq> 0)"

definition truthy_str :: "string option \<Rightarrow> bool" where
  "truthy_str x = (case x of None \<Rightarrow> False | Some s \<Rightarrow> s \<noteq> [])"

text \<open>\<open>f"{year}"\<close>; the year is never \<open>None\<close> where the program formats it.\<close>

definition fmt_year :: "int option \<Rightarrow> string" where
  "fmt_year year = (case year of None \<Rightarrow> ''None'' | Some y \<Rightarrow> py_str y)"

definition quarter_label :: "int option \<Rightarrow> string \<Rightarrow> string" where
  "quarter_label year q =
     (if contains ''-Q'' q then q
      else if \<not> startswith q ''Q'' then fmt_year year @ ''-Q'' @ q
      else fmt_year year @ ''-'' @ q)"

text \<open>The filters; \<open>None\<close> is the early return for a quarter without a year.\<close>

definition quarter_filters :: "int option \<Rightarrow> string option \<Rightarrow> api_filter list option" where
  "quarter_filters year quarter =
     (if truthy_str quarter then
        (if contains ''-Q'' (the quarter) then
           Some [\<lparr>columnName = ''quarter'', ftype = ''EQ'', fvalue = the quarter\<rparr>]
         else if \<not> truthy_int year then None
         else Some [\<lparr>columnName = ''quarter'', ftype = ''EQ'',
                     fvalue = quarter_label year (the quarter)\<rparr>])
      else Some [])"

definition month_filters :: "variant \<Rightarrow> int option \<Rightarrow> int option \<Rightarrow> string option \<Rightarrow> api_filter list" where
  "month_filters v year month quarter =
     (if truthy_int month \<and> truthy_int year then
        [\<lparr>columnName = ''month'', ftype = ''EQ'',
          fvalue = fmt_year year @ ''-'' @ fmt_02d (the month)\<rparr>]
        @ (if v = ApiDaily then []
           else [\<lparr>columnName = ''year_completed'', ftype = ''EQ'', fvalue = fmt_year year\<rparr>])
      else if v \<noteq> ApiDaily \<and> truthy_int year \<and> \<not> truthy_str quarter then
        [\<lparr>columnName = ''year_completed'', ftype = ''EQ'', fvalue = fmt_year year\<rparr>]
      else [])"

text \<open>What happens to the downloaded table before it is returned.\<close>

definition narrow_to_month :: "int option \<Rightarrow> int option \<Rightarrow> dataframe \<Rightarrow> py_error + dataframe" where
  "narrow_to_month year month df =
     (if truthy_int month \<and> truthy_int year \<and> ''month'' \<in> set (columns df) then
        ebind (to_datetime_col ''month'' df) (\<lambda>df1.
        ebind (to_datetime_str (fmt_year year @ ''-'' @ fmt_02d (the month) @ ''-01'')) (\<lambda>target_month.
          Inr (select_rows
                 (\<lambda>r. cell_in_range target_month (month_end_of target_month) (cell_at r ''month''))
                 df1)))
      else Inr df)"

definition add_quarter :: "int option \<Rightarrow> string option \<Rightarrow> dataframe \<Rightarrow> dataframe" where
  "add_quarter year quarter df =
     (if truthy_str quarter \<and> ''quarter'' \<notin> set (columns df)
      then set_col ''quarter'' (\<lambda>r. Str (quarter_label year (the quarter))) df
      else df)"

text \<open>\<open>pd.read_csv(download_url)\<close> takes a string; any other value raises.\<close>

definition after_download ::
  "world \<Rightarrow> int option \<Rightarrow> int option \<Rightarrow> string option \<Rightarrow> json \<Rightarrow> fetch_failure + dataframe" where
  "after_download w year month quarter download_url =
     (case download_url of
        JStr u \<Rightarrow>
          (case read_csv_url w u of
             Raises \<Rightarrow> Inl (Caught RequestException)
           | Returns df \<Rightarrow>
               (case narrow_to_month year month (disk_table df) of
                  Inl e \<Rightarrow> Inl (Caught e)
                | Inr df1 \<Rightarrow> Inr (add_quarter year quarter df1)))
      | _ \<Rightarrow> Inl (Caught ValueError))"

text \<open>
  The polling loop \<open>for i in range(MAX_POLLS)\<close>, entered at poll \<open>i\<close> with \<open>n\<close> polls
  left. The test \<open>"data" in poll_data and "url" in poll_data['data']\<close> may itself
  raise (on \<open>{"data": null}\<close>, say), which ends the call through the \<open>except\<close>
  clause. A poll for which the test is false is followed by \<open>time.sleep(3)\<close>, the last
  one too.
\<close>

fun poll_loop ::
  "world \<Rightarrow> string \<Rightarrow> api_filter list \<Rightarrow> int option \<Rightarrow> int option \<Rightarrow> string option
     \<Rightarrow> nat \<Rightarrow> nat \<Rightarrow> trace \<times> (fetch_failure + dataframe)" where
  "poll_loop w dataset_id body year month quarter i 0 =
     (\<lparr>polls = i, slept = 3 * i\<rparr>, Inl PollTimeout)"
| "poll_loop w dataset_id body year month quarter i (Suc n) =
     (case poll_download w dataset_id body i of
        Raises \<Rightarrow> (\<lparr>polls = Suc i, slept = 3 * i\<rparr>, Inl (Caught RequestException))
      | Returns poll_data \<Rightarrow>
          (case has_field ''data'' ''url'' poll_data of
             Inl e \<Rightarrow> (\<lparr>polls = Suc i, slept = 3 * i\<rparr>, Inl (Caught e))
           | Inr True \<Rightarrow>
               (\<lparr>polls = Suc i, slept = 3 * i\<rparr>,
                case field ''data'' ''url'' poll_data of
                  Inl e \<Rightarrow> Inl (Caught e)
                | Inr download_url \<Rightarrow> after_download w year month quarter download_url)
           | Inr False \<Rightarrow> poll_loop w dataset_id body year month quarter (Suc i) n))"

definition MAX_POLLS :: nat where
  "MAX_POLLS = 5"

definition download_file ::
  "variant \<Rightarrow> world \<Rightarrow> string \<Rightarrow> int option \<Rightarrow> int option \<Rightarrow> string option
     \<Rightarrow> trace \<times> (fetch_failure + dataframe)" where
  "download_file v w dataset_id year month quarter =
     (case quarter_filters year quarter of
        None \<Rightarrow> (\<lparr>polls = 0, slept = 0\<rparr>, Inl InvalidPeriod)
      | Some qf \<Rightarrow>
          (let filters = qf @ month_filters v year month quarter in
           if filters = [] then (\<lparr>polls = 0, slept = 0\<rparr>, Inl InvalidPeriod)
           else
             (case initiate_download w dataset_id filters of
                Raises \<Rightarrow> (\<lparr>polls = 0, slept = 0\<rparr>, Inl (Caught RequestException))
              | Returns response_data \<Rightarrow>
                  (case has_field ''data'' ''message'' response_data of
                     Inl e \<Rightarrow> (\<lparr>polls = 0, slept = 0\<rparr>, Inl (Caught e))
                   | Inr False \<Rightarrow> (\<lparr>polls = 0, slept = 0\<rparr>, Inl RemoteError)
                   | Inr True \<Rightarrow>
                       (case field ''data'' ''message'' response_data of
                          Inl e \<Rightarrow> (\<lparr>polls = 0, slept = 0\<rparr>, Inl (Caught e))
                        | Inr msg \<Rightarrow>
                            poll_loop w dataset_id (if v = ApiMonthly then filters else [])
                              year month quarter 0 MAX_POLLS)))))"

section \<open>Record enrichers\<close>

subsection \<open>Resale prices: \<open>enrich_prices_data\<close>\<close>

definition dt_year :: "cell \<Rightarrow> cell" where
  "dt_year c = (case c of Ts y m d \<Rightarrow> Num (of_nat y) | _ \<Rightarrow> NaN)"

definition dt_month :: "cell \<Rightarrow> cell" where
  "dt_month c = (case c of Ts y m d \<Rightarrow> Num (of_nat m) | _ \<Rightarrow> NaN)"

definition price_per_sqm :: "dataframe \<Rightarrow> py_error + dataframe" where
  "price_per_sqm df =
     (if ''resale_price'' \<in> set (columns df) \<and> ''floor_area_sqm'' \<in> set (columns df) then
        (case emap (\<lambda>r. case div_cell (cell_at r ''resale_price'') (cell_at r ''floor_area_sqm'') of
                           Inl e \<Rightarrow> Inl e
                         | Inr q \<Rightarrow> Inr (row_set ''price_per_sqm'' q r)) (rows df) of
           Inl e \<Rightarrow> Inl e
         | Inr rs \<Rightarrow>
             Inr \<lparr>columns = (if ''price_per_sqm'' \<in> set (columns df) then columns df
                             else columns df @ [''price_per_sqm'']),
                  rows = rs\<rparr>)
      else Inr df)"

text \<open>
  Step 2 of the top-level copy (\<open>df['month'].dt.year\<close>, \<open>.dt.month\<close>) raises
  \<open>AttributeError\<close> on a column that was not converted to timestamps; the copy in
  \<open>api/daily_data_extractor.py\<close> has the step commented out.
\<close>

definition year_month_cols :: "variant \<Rightarrow> dataframe \<Rightarrow> py_error + dataframe" where
  "year_month_cols v df =
     (if v \<noteq> ApiDaily \<and> ''month'' \<in> set (columns df) then
        (if is_datetime64_dtype ''month'' df
         then Inr (set_col ''month_num'' (\<lambda>r. dt_month (cell_at r ''month''))
                    (set_col ''year'' (\<lambda>r. dt_year (cell_at r ''month'')) df))
         else Inl AttributeError)
      else Inr df)"

definition enrich_prices_data :: "variant \<Rightarrow> dataframe \<Rightarrow> py_error + dataframe" where
  "enrich_prices_data v df =
     (if rows df = [] then Inr df
      else
        ebind (price_per_sqm df) (\<lambda>df1.
        ebind (year_month_cols v df1) (\<lambda>df2.
          Inr (rename_col ''resale_price'' ''price'' (rename_col ''month'' ''date'' df2)))))"

subsection \<open>Buildings: \<open>enrich_properties_data\<close>\<close>

text \<open>
  The retry loop \<open>for attempt in range(10)\<close> around the geocoding request: an attempt
  that raises is repeated, the first one that returns ends the loop with its JSON value;
  after ten failures \<open>location\<close> is still \<open>None\<close>. The pause of 10 ms before each
  attempt is not modelled.
\<close>

fun geocode_attempts :: "(nat \<Rightarrow> json reply) \<Rightarrow> nat \<Rightarrow> nat \<Rightarrow> json option" where
  "geocode_attempts g attempt 0 = None"
| "geocode_attempts g attempt (Suc n) =
     (case g attempt of
        Raises \<Rightarrow> geocode_attempts g (Suc attempt) n
      | Returns loc \<Rightarrow> Some loc)"

text \<open>\<open>j.to_dict()\<close> for a row \<open>j\<close> of a frame: one entry for each label of the frame.\<close>

definition to_dict :: "string list \<Rightarrow> row \<Rightarrow> row" where
  "to_dict cols j = map (\<lambda>c. (c, cell_at j c)) cols"

text \<open>
  One pass of the first loop: the entry \<open>blocks_coordinates[i]\<close> for row \<open>j\<close>, which is
  \<open>None\<close> when nothing was found. The rows of a frame have distinct index labels, so
  the test \<open>i in blocks_coordinates\<close> never holds.
\<close>

definition locate_block :: "(nat \<Rightarrow> json reply) \<Rightarrow> string list \<Rightarrow> row \<Rightarrow> py_error + row option" where
  "locate_block g cols j =
     ebind (getitem (to_dict cols j) ''blk_no'') (\<lambda>blk_no.
     ebind (getitem (to_dict cols j) ''street'') (\<lambda>street.
       (case geocode_attempts g 0 10 of
          None \<Rightarrow> Inr None
        | Some loc \<Rightarrow>
            if \<not> truthy loc then Inr None
            else
              ebind (py_item loc ''found'') (\<lambda>n.
                if n = JNum 0 \<or> n = JBool False then Inr None
                else
                  ebind (ebind (py_item loc ''results'') py_first) (\<lambda>l.
                  ebind (py_item l ''ADDRESS'') (\<lambda>a.
                  ebind (py_item l ''LATITUDE'') (\<lambda>la.
                  ebind (py_item l ''LONGITUDE'') (\<lambda>lo.
                  ebind (py_item l ''BUILDING'') (\<lambda>b.
                    Inr (Some (row_set ''building'' (cell_of_json b)
                              (row_set ''longitude'' (cell_of_json lo)
                              (row_set ''latitude'' (cell_of_json la)
                              (row_set ''address'' (cell_of_json a) (to_dict cols j)))))))))))))))"

text \<open>Python's \<open>float\<close>; it refuses \<open>None\<close>, a list and a dict.\<close>

definition py_float :: "world \<Rightarrow> cell \<Rightarrow> py_error + cell" where
  "py_float w c =
     (case c of
        Str s \<Rightarrow> (case float_of_text w s of None \<Rightarrow> Inl ValueError | Some q \<Rightarrow> Inr (Num q))
      | Num q \<Rightarrow> Inr (Num q)
      | Inf b \<Rightarrow> Inr (Inf b)
      | Obj (JBool b) \<Rightarrow> Inr (Num (if b then 1 else 0))
      | _ \<Rightarrow> Inl TypeError)"

definition tag_cell :: "string option \<Rightarrow> cell" where
  "tag_cell t = (case t of None \<Rightarrow> NaN | Some s \<Rightarrow> Str s)"

text \<open>One pass of the second loop: the output record built from a located block \<open>d\<close>,
  its entries evaluated in the order of the dict display.\<close>

definition property_record :: "world \<Rightarrow> row \<Rightarrow> py_error + row" where
  "property_record w d =
     ebind (tagging d) (\<lambda>tag.
     ebind (ebind (getitem d ''latitude'') (py_float w)) (\<lambda>lat.
     ebind (ebind (getitem d ''longitude'') (py_float w)) (\<lambda>lon.
     ebind (ebind (getitem d ''bldg_contract_town'') legend_lookup) (\<lambda>town.
     ebind (getitem d ''address'') (\<lambda>address.
     ebind (getitem d ''street'') (\<lambda>street.
     ebind (getitem d ''year_completed'') (\<lambda>year.
     ebind (getitem d ''max_floor_lvl'') (\<lambda>max_floor_lvl.
       Inr [(''tag'', tag_cell tag), (''lat'', lat), (''lon'', lon), (''town'', Str town),
            (''address'', address), (''street'', street),
            (''total_units'', (case map_of d ''total_dwelling_units'' of None \<Rightarrow> Num 0 | Some u \<Rightarrow> u)),
            (''year'', year), (''max_floor_lvl'', max_floor_lvl)]))))))))"

definition property_columns :: "string list" where
  "property_columns =
     [''tag'', ''lat'', ''lon'', ''town'', ''address'', ''street'', ''total_units'', ''year'',
      ''max_floor_lvl'']"

definition located_blocks :: "world \<Rightarrow> dataframe \<Rightarrow> py_error + row option list" where
  "located_blocks w df =
     emap (\<lambda>(i, j). locate_block (onemap_search w i) (columns df) j) (enumerate 0 (rows df))"

definition enrich_properties_data :: "world \<Rightarrow> dataframe \<Rightarrow> py_error + dataframe" where
  "enrich_properties_data w df =
     ebind (located_blocks w df) (\<lambda>blocks_coordinates.
     ebind (emap (property_record w) (map the (filter (\<lambda>d. d \<noteq> None) blocks_coordinates))) (\<lambda>data.
       Inr (frame_of_records property_columns data)))"

section \<open>Segment store: the files under \<open>./data\<close>\<close>

text \<open>
  A file is absent, or holds a table or a metadata record, or holds bytes that
  \<open>pd.read_csv\<close> or \<open>json.load\<close> cannot parse.
\<close>

datatype 'a stored = Unreadable | Holds 'a

record metadata =
  last_updated :: string
  last_month_added :: string
  record_count :: nat

record files =
  properties_file :: "dataframe stored option"
  properties_new_file :: "dataframe stored option"
  properties_metadata :: "metadata stored option"
  latest_prices_file :: "dataframe stored option"
  prices_latest_metadata :: "metadata stored option"
  latest_aggprices_file :: "dataframe stored option"
  agg_prices_latest_metadata :: "metadata stored option"
  prices_1990_1999 :: "dataframe stored option"
  prices_2000_2012 :: "dataframe stored option"
  prices_2012_2014 :: "dataframe stored option"
  prices_2015_2016 :: "dataframe stored option"

definition read_stored :: "dataframe stored \<Rightarrow> py_error + dataframe" where
  "read_stored st = (case st of Unreadable \<Rightarrow> Inl ValueError | Holds df \<Rightarrow> Inr (disk_table df))"

text \<open>
  Writing \<open>content\<close> to the file \<open>name\<close> that now holds \<open>old\<close>: the file
  afterwards, and whether the write went through (otherwise it raised \<open>OSError\<close>).
\<close>

definition write_file :: "world \<Rightarrow> string \<Rightarrow> 'a \<Rightarrow> 'a stored option \<Rightarrow> 'a stored option \<times> bool" where
  "write_file w name content old =
     (case write_outcome w name of
        Written \<Rightarrow> (Some (Holds content), True)
      | OpenFails \<Rightarrow> (old, False)
      | WriteFails \<Rightarrow> (Some Unreadable, False))"

section \<open>Merge and dedup: the three update operations\<close>

subsection \<open>Resale prices: \<open>update_latest_prices_dataset\<close>\<close>

definition get_dataset_id_for_period :: "int \<Rightarrow> string option" where
  "get_dataset_id_for_period year =
     (if 1990 \<le> year \<and> year \<le> 1999 then Some ''d_ebc5ab87086db484f88045b47411ebc5''
      else if 2000 \<le> year \<and> year \<le> 2012 then Some ''d_43f493c6c50d54243cc1eab0df142d6a''
      else if 2012 \<le> year \<and> year \<le> 2014 then Some ''d_2d5ff9ea31397b66239f245f57751537''
      else if 2015 \<le> year \<and> year \<le> 2016 then Some ''d_ea9ed51da2787afaf8e51f827c304208''
      else if 2017 \<le> year then Some ''d_8b84c4ee58e3cfc0ece0d773c8ca6abc''
      else None)"

text \<open>
  The column the merge looks for in the existing file: \<open>'month'\<close> in the top-level
  copy, \<open>'date'\<close> in \<open>api/daily_data_extractor.py\<close>.
\<close>

definition period_column :: "variant \<Rightarrow> string" where
  "period_column v = (if v = ApiDaily then ''date'' else ''month'')"

text \<open>\<open>combined_df['date'] = combined_df['date'].dt.strftime('%Y-%m-%d')\<close>.\<close>

definition strftime_date :: "dataframe \<Rightarrow> py_error + dataframe" where
  "strftime_date df =
     (if ''date'' \<notin> set (columns df) then Inl (KeyError (Str ''date''))
      else if \<not> is_datetime64_dtype ''date'' df then Inl AttributeError
      else Inr (set_col ''date''
                  (\<lambda>r. case cell_at r ''date'' of
                          Ts y m d \<Rightarrow> Str (iso_of_date (y, m, d)) | _ \<Rightarrow> NaN) df))"

text \<open>The branch \<open>if LATEST_PRICES_FILE.exists()\<close>, from the table read to \<open>combined_df\<close>.\<close>

definition merge_prices :: "variant \<Rightarrow> dataframe \<Rightarrow> dataframe \<Rightarrow> int \<Rightarrow> int \<Rightarrow> py_error + dataframe" where
  "merge_prices v existing_df month_df year month =
     ebind (if period_column v \<in> set (columns existing_df)
               \<and> \<not> is_datetime64_dtype (period_column v) existing_df
            then to_datetime_col (period_column v) existing_df else Inr existing_df) (\<lambda>ex1.
     ebind (to_datetime_str (py_str year @ ''-'' @ fmt_02d month @ ''-01'')) (\<lambda>target_month.
       (let ex2 = (if period_column v \<in> set (columns ex1)
                   then select_rows
                          (\<lambda>r. \<not> cell_in_range target_month (month_end_of target_month)
                                    (cell_at r (period_column v))) ex1
                   else ex1);
            combined_df = pd_concat ex2 month_df
        in if v = ApiDaily then strftime_date combined_df else Inr combined_df)))"

text \<open>
  The body of the \<open>try\<close>: the files as they are when it ends, and how it ends (an
  exception, or the value returned). The store file is written first, the metadata
  after it; a write that raises ends the body with the earlier writes done.
\<close>

definition prices_try ::
  "variant \<Rightarrow> world \<Rightarrow> files \<Rightarrow> string \<Rightarrow> int \<Rightarrow> int \<Rightarrow> files \<times> (py_error + bool)" where
  "prices_try v w fs dataset_id year month =
     (case snd (download_file v w dataset_id (Some year) (Some month) None) of
        Inl failure \<Rightarrow> (fs, Inr False)
      | Inr month_df0 \<Rightarrow>
          if rows month_df0 = [] then (fs, Inr False)
          else
            (case enrich_prices_data v month_df0 of
               Inl e \<Rightarrow> (fs, Inl e)
             | Inr month_df \<Rightarrow>
                 (case (case latest_prices_file fs of
                          None \<Rightarrow> Inr month_df
                        | Some st \<Rightarrow>
                            ebind (read_stored st) (\<lambda>existing_df.
                              merge_prices v existing_df month_df year month)) of
                    Inl e \<Rightarrow> (fs, Inl e)
                  | Inr combined_df \<Rightarrow>
                      (let (f1, ok1) = write_file w ''prices_2017_onwards.csv''
                                         (disk_table combined_df) (latest_prices_file fs);
                           fs1 = fs\<lparr>latest_prices_file := f1\<rparr>
                       in if \<not> ok1 then (fs1, Inl OSError)
                          else
                            (let (f2, ok2) = write_file w ''prices_latest_metadata.json''
                                   \<lparr>last_updated = now_iso w,
                                    last_month_added = py_str year @ ''-'' @ fmt_02d month,
                                    record_count = length (rows combined_df)\<rparr>
                                   (prices_latest_metadata fs1);
                                 fs2 = fs1\<lparr>prices_latest_metadata := f2\<rparr>
                             in if \<not> ok2 then (fs2, Inl OSError) else (fs2, Inr True))))))"

definition caught :: "files \<times> (py_error + bool) \<Rightarrow> files \<times> bool" where
  "caught r = (fst r, case snd r of Inl e \<Rightarrow> False | Inr b \<Rightarrow> b)"

definition update_latest_prices_dataset :: "variant \<Rightarrow> world \<Rightarrow> files \<Rightarrow> int \<Rightarrow> int \<Rightarrow> files \<times> bool" where
  "update_latest_prices_dataset v w fs year month =
     (if year < 2017 then (fs, False)
      else
        (case get_dataset_id_for_period year of
           None \<Rightarrow> (fs, False)
         | Some dataset_id \<Rightarrow> caught (prices_try v w fs dataset_id year month)))"

subsection \<open>Aggregated quarterly prices: \<open>update_latest_aggprices_dataset\<close>\<close>

definition str_column :: "string \<Rightarrow> (string \<Rightarrow> string) \<Rightarrow> dataframe \<Rightarrow> py_error + dataframe" where
  "str_column c f df =
     (if c \<notin> set (columns df) then Inl (KeyError (Str c))
      else if \<not> is_object_dtype c df then Inl AttributeError
      else Inr (set_col c (\<lambda>r. str_method f (cell_at r c)) df))"

definition fillna_price :: "dataframe \<Rightarrow> py_error + dataframe" where
  "fillna_price df =
     (if ''price'' \<notin> set (columns df) then Inl (KeyError (Str ''price''))
      else Inr (set_col ''price''
                  (\<lambda>r. if cell_at r ''price'' = NaN then Str ''-'' else cell_at r ''price'') df))"

definition central_area :: "dataframe \<Rightarrow> dataframe" where
  "central_area df =
     set_col ''town''
       (\<lambda>r. if cell_at r ''town'' = Str ''CENTRAL'' then Str ''CENTRAL AREA'' else cell_at r ''town'') df"

text \<open>The four assignments to \<open>quarter_df\<close>.\<close>

definition enrich_aggprices :: "dataframe \<Rightarrow> py_error + dataframe" where
  "enrich_aggprices quarter_df =
     ebind (str_column ''flat_type'' (\<lambda>s. upper (replace_hyphen s)) quarter_df) (\<lambda>df1.
     ebind (fillna_price df1) (\<lambda>df2.
     ebind (str_column ''town'' upper df2) (\<lambda>df3.
       Inr (central_area df3))))"

text \<open>\<open>quarter = (month - 1) // 3 + 1\<close> and \<open>quarter_str = f"Q{quarter}"\<close>.\<close>

definition quarter_str_of :: "int \<Rightarrow> string" where
  "quarter_str_of month = ''Q'' @ py_str ((month - 1) div 3 + 1)"

text \<open>The branch \<open>if LATEST_AGGPRICES_FILE.exists()\<close>.\<close>

definition merge_aggprices :: "dataframe \<Rightarrow> dataframe \<Rightarrow> string \<Rightarrow> dataframe" where
  "merge_aggprices existing_df quarter_df quarter_str =
     pd_concat
       (if ''quarter'' \<in> set (columns existing_df)
        then select_rows (\<lambda>r. cell_at r ''quarter'' \<noteq> Str quarter_str) existing_df
        else existing_df)
       quarter_df"

definition aggprices_try ::
  "variant \<Rightarrow> world \<Rightarrow> files \<Rightarrow> int \<Rightarrow> int \<Rightarrow> files \<times> (py_error + bool)" where
  "aggprices_try v w fs year month =
     (case snd (download_file v w ''d_b51323a474ba789fb4cc3db58a3116d4'' (Some year) None
                  (Some (quarter_str_of month))) of
        Inl failure \<Rightarrow> (fs, Inr False)
      | Inr quarter_df0 \<Rightarrow>
          if rows quarter_df0 = [] then (fs, Inr False)
          else
            (case enrich_aggprices quarter_df0 of
               Inl e \<Rightarrow> (fs, Inl e)
             | Inr quarter_df \<Rightarrow>
                 (case (case latest_aggprices_file fs of
                          None \<Rightarrow> Inr quarter_df
                        | Some st \<Rightarrow>
                            ebind (read_stored st) (\<lambda>existing_df.
                              Inr (merge_aggprices existing_df quarter_df (quarter_str_of month)))) of
                    Inl e \<Rightarrow> (fs, Inl e)
                  | Inr combined_df \<Rightarrow>
                      (let (f1, ok1) = write_file w ''agg_prices.csv''
                                         (disk_table combined_df) (latest_aggprices_file fs);
                           fs1 = fs\<lparr>latest_aggprices_file := f1\<rparr>
                       in if \<not> ok1 then (fs1, Inl OSError)
                          else
                            (let (f2, ok2) = write_file w ''agg_prices_latest_metadata.json''
                                   \<lparr>last_updated = now_iso w,
                                    last_month_added = py_str year @ ''-'' @ quarter_str_of month,
                                    record_count = length (rows combined_df)\<rparr>
                                   (agg_prices_latest_metadata fs1);
                                 fs2 = fs1\<lparr>agg_prices_latest_metadata := f2\<rparr>
                             in if \<not> ok2 then (fs2, Inl OSError) else (fs2, Inr True))))))"

definition update_latest_aggprices_dataset :: "variant \<Rightarrow> world \<Rightarrow> files \<Rightarrow> int \<Rightarrow> int \<Rightarrow> files \<times> bool" where
  "update_latest_aggprices_dataset v w fs year month = caught (aggprices_try v w fs year month)"

subsection \<open>Buildings: \<open>update_latest_properties_dataset\<close>\<close>

text \<open>\<open>astype(str)\<close> of a cell, and the column \<open>blk_no.astype(str) + ' ' + street\<close>.\<close>

definition astype_str :: "world \<Rightarrow> cell \<Rightarrow> string" where
  "astype_str w c =
     (case c of
        Str s \<Rightarrow> s
      | Inf b \<Rightarrow> (if b then ''inf'' else ''-inf'')
      | Ts y m d \<Rightarrow> iso_of_date (y, m, d)
      | NaN \<Rightarrow> ''nan''
      | NaT \<Rightarrow> ''NaT''
      | _ \<Rightarrow> text_of_value w c)"

definition address_cell :: "world \<Rightarrow> row \<Rightarrow> py_error + cell" where
  "address_cell w r =
     (case cell_at r ''street'' of
        Str s \<Rightarrow> Inr (Str (astype_str w (cell_at r ''blk_no'') @ '' '' @ s))
      | NaN \<Rightarrow> Inr NaN
      | _ \<Rightarrow> Inl TypeError)"

definition with_address :: "world \<Rightarrow> dataframe \<Rightarrow> py_error + dataframe" where
  "with_address w new_df =
     (if ''address'' \<notin> set (columns new_df) \<and> ''blk_no'' \<in> set (columns new_df)
         \<and> ''street'' \<in> set (columns new_df)
      then
        (case emap (\<lambda>r. case address_cell w r of
                           Inl e \<Rightarrow> Inl e | Inr a \<Rightarrow> Inr (row_set ''address'' a r)) (rows new_df) of
           Inl e \<Rightarrow> Inl e
         | Inr rs \<Rightarrow> Inr \<lparr>columns = columns new_df @ [''address''], rows = rs\<rparr>)
      else Inr new_df)"

text \<open>
  The address comparison: the addresses both frames have, and the existing rows
  without those whose address is among them.
\<close>

definition address_column :: "dataframe \<Rightarrow> cell list" where
  "address_column df = map (\<lambda>r. cell_at r ''address'') (rows df)"

definition drop_duplicate_addresses :: "dataframe \<Rightarrow> dataframe \<Rightarrow> dataframe" where
  "drop_duplicate_addresses existing_df new_df =
     (let duplicate_addresses =
            filter (\<lambda>a. a \<in> set (address_column new_df)) (address_column existing_df)
      in if duplicate_addresses \<noteq> []
         then select_rows (\<lambda>r. cell_at r ''address'' \<notin> set duplicate_addresses) existing_df
         else existing_df)"

text \<open>"Combine with existing data if available": the new frame as it is afterwards,
  and the combined frame.\<close>

definition merge_properties ::
  "world \<Rightarrow> dataframe option \<Rightarrow> dataframe \<Rightarrow> py_error + (dataframe \<times> dataframe)" where
  "merge_properties w existing new_df =
     (if existing \<noteq> None \<and> rows (the existing) \<noteq> [] then
        (if ''address'' \<in> set (columns (the existing)) then
           ebind (with_address w new_df) (\<lambda>new1.
             Inr (new1,
                  pd_concat (if ''address'' \<in> set (columns new1)
                          then drop_duplicate_addresses (the existing) new1
                          else the existing) new1))
         else Inr (new_df, pd_concat (the existing) new_df))
      else ebind (with_address w new_df) (\<lambda>new1. Inr (new1, new1)))"

definition properties_try ::
  "variant \<Rightarrow> world \<Rightarrow> files \<Rightarrow> int \<Rightarrow> int \<Rightarrow> files \<times> (py_error + bool)" where
  "properties_try v w fs year month =
     (case (case properties_file fs of
              None \<Rightarrow> Inr None
            | Some st \<Rightarrow> (case read_stored st of Inl e \<Rightarrow> Inl e | Inr df \<Rightarrow> Inr (Some df))) of
        Inl e \<Rightarrow> (fs, Inl e)
      | Inr existing_properties_df \<Rightarrow>
          (case snd (download_file v w ''d_17f5382f26140b1fdae0ba2ef6239d2f'' (Some year)
                       (if v = ApiMonthly then None else Some month) None) of
             Inl failure \<Rightarrow> (fs, Inr False)
           | Inr new0 \<Rightarrow>
               if rows new0 = [] then (fs, Inr False)
               else
                 (case ebind (enrich_properties_data w new0)
                         (merge_properties w existing_properties_df) of
                    Inl e \<Rightarrow> (fs, Inl e)
                  | Inr (new_properties_df, combined_df) \<Rightarrow>
                      (let (f1, ok1) = write_file w ''properties_combined_new.json''
                                         (disk_table new_properties_df) (properties_new_file fs);
                           fs1 = fs\<lparr>properties_new_file := f1\<rparr>
                       in if \<not> ok1 then (fs1, Inl OSError)
                          else
                            (let (f2, ok2) = write_file w ''properties_combined.json''
                                               (disk_table combined_df) (properties_file fs1);
                                 fs2 = fs1\<lparr>properties_file := f2\<rparr>
                             in if \<not> ok2 then (fs2, Inl OSError)
                                else
                                  (let (f3, ok3) = write_file w ''properties_metadata.json''
                                         \<lparr>last_updated = now_iso w,
                                          last_month_added = py_str year @ ''-'' @ fmt_02d month,
                                          record_count = length (rows combined_df)\<rparr>
                                         (properties_metadata fs2);
                                       fs3 = fs2\<lparr>properties_metadata := f3\<rparr>
                                   in if \<not> ok3 then (fs3, Inl OSError)
                                      else (fs3, Inr True)))))))"

definition update_latest_properties_dataset :: "variant \<Rightarrow> world \<Rightarrow> files \<Rightarrow> int \<Rightarrow> int \<Rightarrow> files \<times> bool" where
  "update_latest_properties_dataset v w fs year month = caught (properties_try v w fs year month)"

section \<open>Orchestration: \<open>extract_monthly_data\<close> and \<open>run\<close>\<close>

text \<open>\<open>x or d\<close> for an optional int.\<close>

definition or_else :: "int option \<Rightarrow> int \<Rightarrow> int" where
  "or_else x d = (case x of None \<Rightarrow> d | Some i \<Rightarrow> if i \<noteq> 0 then i else d)"

text \<open>The month before today's: \<open>datetime(today.year, today.month, 1) - timedelta(days=1)\<close>.\<close>

definition prev_month :: "date \<Rightarrow> int \<times> int" where
  "prev_month t = (case t of (y, m, d) \<Rightarrow> if m = 1 then (int y - 1, 12) else (int y, int m - 1))"

definition this_month :: "date \<Rightarrow> int \<times> int" where
  "this_month t = (case t of (y, m, d) \<Rightarrow> (int y, int m))"

definition default_period :: "int \<times> int \<Rightarrow> int option \<Rightarrow> int option \<Rightarrow> int \<times> int" where
  "default_period dflt year month =
     (if year = None \<or> month = None then (or_else year (fst dflt), or_else month (snd dflt))
      else (the year, the month))"

definition extract_monthly_data :: "world \<Rightarrow> files \<Rightarrow> int option \<Rightarrow> int option \<Rightarrow> files \<times> bool" where
  "extract_monthly_data w fs year month =
     (let (y, m) = default_period (prev_month (today w)) year month;
          (fs1, properties_updated) = update_latest_properties_dataset TopMonthly w fs y m;
          (fs2, prices_updated) =
             (if 2017 \<le> y then update_latest_prices_dataset TopMonthly w fs1 y m else (fs1, False));
          (fs3, agg_prices_updated) = update_latest_aggprices_dataset TopMonthly w fs2 y m
      in (fs3, True))"

text \<open>\<open>run\<close> of \<open>api/monthly_data_extractor.py\<close> and of \<open>api/daily_data_extractor.py\<close>.\<close>

definition run :: "variant \<Rightarrow> world \<Rightarrow> files \<Rightarrow> int option \<Rightarrow> int option \<Rightarrow> files \<times> bool" where
  "run v w fs year month =
     (let (y, m) = default_period (this_month (today w)) year month in
      if v = ApiDaily then
        (let (fs1, prices_updated) = update_latest_prices_dataset ApiDaily w fs y m
         in (fs1, True))
      else
        (let (fs1, properties_updated) = update_latest_properties_dataset ApiMonthly w fs y m;
             (fs2, agg_prices_updated) = update_latest_aggprices_dataset ApiMonthly w fs1 y m
         in (fs2, True)))"

section \<open>Serving layer: \<open>app.py\<close>\<close>

subsection \<open>Period-range read: \<open>load_prices_data_for_period\<close>\<close>

datatype segment = Seg_1990_1999 | Seg_2000_2012 | Seg_2012_2014 | Seg_2015_2016 | Seg_latest

text \<open>\<open>PRICES_SEGMENTS\<close> and \<open>LATEST_PRICES_FILE\<close>.\<close>

definition segment_file :: "files \<Rightarrow> segment \<Rightarrow> dataframe stored option" where
  "segment_file fs seg =
     (case seg of
        Seg_1990_1999 \<Rightarrow> prices_1990_1999 fs
      | Seg_2000_2012 \<Rightarrow> prices_2000_2012 fs
      | Seg_2012_2014 \<Rightarrow> prices_2012_2014 fs
      | Seg_2015_2016 \<Rightarrow> prices_2015_2016 fs
      | Seg_latest \<Rightarrow> latest_prices_file fs)"

definition parse_start_date :: "string \<Rightarrow> py_error + date" where
  "parse_start_date s =
     (if length s = 4 then to_datetime_str (s @ ''-01-01'')
      else if length s = 7 then to_datetime_str (s @ ''-01'')
      else to_datetime_str s)"

definition parse_end_date :: "string \<Rightarrow> py_error + date" where
  "parse_end_date s =
     (if length s = 4 then to_datetime_str (s @ ''-12-31'')
      else if length s = 7 then ebind (to_datetime_str s) (\<lambda>t. Inr (month_end_of t))
      else to_datetime_str s)"

text \<open>"Determine which segments we need", from the years of the two bounds.\<close>

definition segments_to_load :: "nat \<Rightarrow> nat \<Rightarrow> segment list" where
  "segments_to_load start_year end_year =
     (if start_year \<le> 1999 then [Seg_1990_1999] else [])
     @ (if start_year \<le> 2012 \<and> 2000 \<le> end_year then [Seg_2000_2012] else [])
     @ (if start_year \<le> 2014 \<and> 2012 \<le> end_year then [Seg_2012_2014] else [])
     @ (if start_year \<le> 2016 \<and> 2015 \<le> end_year then [Seg_2015_2016] else [])
     @ (if 2017 \<le> end_year then [Seg_latest] else [])"

text \<open>
  The body of the \<open>try\<close> for one segment file that exists: the frame appended to
  \<open>all_dfs\<close>, or the exception that is logged and leaves the segment out.
\<close>

definition load_segment :: "date \<Rightarrow> date \<Rightarrow> dataframe stored \<Rightarrow> py_error + dataframe" where
  "load_segment start_date end_date st =
     ebind (read_stored st) (\<lambda>df.
     ebind (if ''date'' \<in> set (columns df) \<and> \<not> is_datetime64_dtype ''date'' df
            then to_datetime_col ''date'' df else Inr df) (\<lambda>df1.
       Inr (if ''date'' \<in> set (columns df1)
            then select_rows (\<lambda>r. cell_in_range start_date end_date (cell_at r ''date'')) df1
            else df1)))"

definition loaded_frames :: "files \<Rightarrow> date \<Rightarrow> date \<Rightarrow> segment list \<Rightarrow> dataframe list" where
  "loaded_frames fs start_date end_date segs =
     List.concat (map
       (\<lambda>seg. case segment_file fs seg of
                 None \<Rightarrow> []
               | Some st \<Rightarrow> (case load_segment start_date end_date st of
                              Inl e \<Rightarrow> [] | Inr df \<Rightarrow> [df]))
       segs)"

text \<open>\<open>pd.concat(all_dfs, ignore_index=True)\<close>; \<open>pd.DataFrame()\<close> when nothing was loaded.\<close>

definition concat_all :: "dataframe list \<Rightarrow> dataframe" where
  "concat_all dfs = (case dfs of [] \<Rightarrow> \<lparr>columns = [], rows = []\<rparr> | d # ds \<Rightarrow> foldl pd_concat d ds)"

definition load_prices_data_for_period :: "files \<Rightarrow> string \<Rightarrow> string \<Rightarrow> py_error + dataframe" where
  "load_prices_data_for_period fs start_date end_date =
     ebind (parse_start_date start_date) (\<lambda>start.
     ebind (parse_end_date end_date) (\<lambda>stop.
       Inr (concat_all (loaded_frames fs start stop (segments_to_load (fst start) (fst stop))))))"

subsection \<open>Grouped median: \<open>get_prices_local\<close>\<close>

text \<open>
  The order \<open>groupby\<close> sorts its keys by: numbers by value, text by code point,
  timestamps by date. Cells of different kinds do not meet in one key column of the
  stored tables; the model orders them by kind.
\<close>

fun str_le :: "string \<Rightarrow> string \<Rightarrow> bool" where
  "str_le [] t = True"
| "str_le (c # cs) [] = False"
| "str_le (c # cs) (d # ds) = ((of_char c :: nat) < of_char d \<or> (c = d \<and> str_le cs ds))"

definition kind :: "cell \<Rightarrow> nat" where
  "kind c = (case c of Inf b \<Rightarrow> 0 | Num q \<Rightarrow> 0 | Ts y m d \<Rightarrow> 1 | Str s \<Rightarrow> 2 | _ \<Rightarrow> 3)"

definition cell_le :: "cell \<Rightarrow> cell \<Rightarrow> bool" where
  "cell_le a b =
     (case (a, b) of
        (Num x, Num y) \<Rightarrow> x \<le> y
      | (Inf s, Num y) \<Rightarrow> \<not> s
      | (Num x, Inf t) \<Rightarrow> t
      | (Inf s, Inf t) \<Rightarrow> (s \<longrightarrow> t)
      | (Str x, Str y) \<Rightarrow> str_le x y
      | (Ts y m d, Ts y' m' d') \<Rightarrow> date_le (y, m, d) (y', m', d')
      | _ \<Rightarrow> kind a \<le> kind b)"

fun key_le :: "cell list \<Rightarrow> cell list \<Rightarrow> bool" where
  "key_le [] t = True"
| "key_le (a # as) [] = False"
| "key_le (a # as) (b # bs) = (if a = b then key_le as bs else cell_le a b)"

fun insort_by :: "('a \<Rightarrow> 'a \<Rightarrow> bool) \<Rightarrow> 'a \<Rightarrow> 'a list \<Rightarrow> 'a list" where
  "insort_by le x [] = [x]"
| "insort_by le x (y # ys) = (if le x y then x # y # ys else y # insort_by le x ys)"

definition sort_by :: "('a \<Rightarrow> 'a \<Rightarrow> bool) \<Rightarrow> 'a list \<Rightarrow> 'a list" where
  "sort_by le xs = foldr (insort_by le) xs []"

definition is_number :: "cell \<Rightarrow> bool" where
  "is_number c = (case c of Num q \<Rightarrow> True | Inf b \<Rightarrow> True | _ \<Rightarrow> False)"

definition is_missing :: "cell \<Rightarrow> bool" where
  "is_missing c = (c = NaN \<or> c = NaT)"

text \<open>The mean of the two middle values of an even-sized group.\<close>

definition midpoint :: "cell \<Rightarrow> cell \<Rightarrow> cell" where
  "midpoint a b =
     (case (a, b) of
        (Num x, Num y) \<Rightarrow> Num ((x + y) / 2)
      | (Inf s, Num y) \<Rightarrow> Inf s
      | (Num x, Inf t) \<Rightarrow> Inf t
      | (Inf s, Inf t) \<Rightarrow> (if s = t then Inf s else NaN)
      | _ \<Rightarrow> NaN)"

text \<open>The median of a group's prices; missing prices are skipped.\<close>

definition median :: "cell list \<Rightarrow> cell" where
  "median cs =
     (let vs = sort_by cell_le (filter is_number cs); n = length vs in
      if n = 0 then NaN
      else if odd n then vs ! (n div 2)
      else midpoint (vs ! (n div 2 - 1)) (vs ! (n div 2)))"

text \<open>\<open>pd.to_numeric(..., errors='coerce')\<close>.\<close>

definition to_numeric :: "world \<Rightarrow> cell \<Rightarrow> cell" where
  "to_numeric w c =
     (case c of
        Num q \<Rightarrow> Num q
      | Inf b \<Rightarrow> Inf b
      | Str s \<Rightarrow> (case float_of_text w s of None \<Rightarrow> NaN | Some q \<Rightarrow> Num q)
      | _ \<Rightarrow> NaN)"

text \<open>
  \<open>df.groupby(keys).agg(price=('price', 'median')).reset_index()\<close>: one record for
  each distinct key in sorted order, rows with a missing key cell left out.
\<close>

definition group_key :: "string list \<Rightarrow> row \<Rightarrow> cell list" where
  "group_key keys r = map (cell_at r) keys"

definition group_keys :: "string list \<Rightarrow> dataframe \<Rightarrow> cell list list" where
  "group_keys keys df =
     sort_by key_le
       (remdups (filter (\<lambda>k. \<not> list_ex is_missing k) (map (group_key keys) (rows df))))"

definition group_prices :: "string list \<Rightarrow> dataframe \<Rightarrow> cell list \<Rightarrow> cell list" where
  "group_prices keys df k =
     map (\<lambda>r. cell_at r ''price'') (filter (\<lambda>r. group_key keys r = k) (rows df))"

definition groupby_median :: "string list \<Rightarrow> dataframe \<Rightarrow> py_error + row list" where
  "groupby_median keys df =
     (case filter (\<lambda>k. k \<notin> set (columns df)) keys of
        k # ks \<Rightarrow> Inl (KeyError (Str k))
      | [] \<Rightarrow> Inr (map (\<lambda>k. zip keys k @ [(''price'', median (group_prices keys df k))])
                       (group_keys keys df)))"

text \<open>\<open>s.split(',')\<close> and \<open>t.strip()\<close>.\<close>

fun split_comma :: "string \<Rightarrow> string list" where
  "split_comma [] = [[]]"
| "split_comma (c # cs) =
     (if c = CHR '','' then [] # split_comma cs
      else (case split_comma cs of [] \<Rightarrow> [[c]] | t # ts \<Rightarrow> (c # t) # ts))"

definition is_space :: "char \<Rightarrow> bool" where
  "is_space c = ((of_char c :: nat) \<in> {32, 9, 10, 11, 12, 13})"

definition strip :: "string \<Rightarrow> string" where
  "strip s = rev (dropWhile is_space (rev (dropWhile is_space s)))"

text \<open>The query parameters of a request, and the three answers of the endpoint: the
  grouped records, the "No data found" message, and the error with status 500.\<close>

record request_args =
  arg_start_date :: "string option"
  arg_end_date :: "string option"
  arg_town :: "string option"
  arg_towns :: "string option"

datatype response = Prices "row list" | NoData | ServerError py_error

definition strftime_ym :: "date \<Rightarrow> string" where
  "strftime_ym t = (case t of (y, m, d) \<Rightarrow> pad_left 4 (digits y) @ ''-'' @ pad_left 2 (digits m))"

definition requested_towns :: "request_args \<Rightarrow> string list" where
  "requested_towns args =
     (if truthy_str (arg_town args) then [the (arg_town args)]
      else if truthy_str (arg_towns args) then map strip (split_comma (the (arg_towns args)))
      else [])"

definition filter_towns :: "string list \<Rightarrow> dataframe \<Rightarrow> py_error + dataframe" where
  "filter_towns towns df =
     (if towns \<noteq> [] then
        (if ''town'' \<notin> set (columns df) then Inl (KeyError (Str ''town''))
         else Inr (select_rows (\<lambda>r. cell_at r ''town'' \<in> Str ` set towns) df))
      else Inr df)"

definition numeric_price :: "world \<Rightarrow> dataframe \<Rightarrow> py_error + dataframe" where
  "numeric_price w df =
     (if ''price'' \<notin> set (columns df) then Inl (KeyError (Str ''price''))
      else Inr (set_col ''price'' (\<lambda>r. to_numeric w (cell_at r ''price'')) df))"

definition get_prices_local :: "world \<Rightarrow> files \<Rightarrow> request_args \<Rightarrow> response" where
  "get_prices_local w fs args =
     (let start_date = (case arg_start_date args of None \<Rightarrow> ''2022-01'' | Some s \<Rightarrow> s);
          end_date = (case arg_end_date args of None \<Rightarrow> strftime_ym (today w) | Some s \<Rightarrow> s);
          towns = requested_towns args
      in case load_prices_data_for_period fs start_date end_date of
           Inl e \<Rightarrow> ServerError e
         | Inr df \<Rightarrow>
             if rows df = [] \<or> columns df = [] then NoData
             else
               (case ebind (filter_towns towns df) (\<lambda>df1.
                     ebind (numeric_price w df1) (\<lambda>df2.
                       groupby_median [''date'', ''street'', ''flat_type''] df2)) of
                  Inl e \<Rightarrow> ServerError e
                | Inr recs \<Rightarrow> Prices recs))"

section \<open>Notions used to state the properties\<close>

definition flag_columns :: "string list" where
  "flag_columns = map fst tag_priority"

text \<open>
  The \<open>i\<close>-th poll and the test the loop makes on its answer: the test is false; it
  is true and \<open>poll_data['data']['url']\<close> is \<open>u\<close>; the request or the test raises
  \<open>e\<close>.
\<close>

definition no_link :: "world \<Rightarrow> string \<Rightarrow> api_filter list \<Rightarrow> nat \<Rightarrow> bool" where
  "no_link w dataset_id body i =
     (case poll_download w dataset_id body i of
        Raises \<Rightarrow> False | Returns j \<Rightarrow> has_field ''data'' ''url'' j = Inr False)"

definition has_link :: "world \<Rightarrow> string \<Rightarrow> api_filter list \<Rightarrow> nat \<Rightarrow> json \<Rightarrow> bool" where
  "has_link w dataset_id body i u =
     (case poll_download w dataset_id body i of
        Raises \<Rightarrow> False
      | Returns j \<Rightarrow> has_field ''data'' ''url'' j = Inr True \<and> field ''data'' ''url'' j = Inr u)"


text \<open>The request \<open>download_file\<close> initiates, and the body it sends with each poll.\<close>

definition request_filters :: "variant \<Rightarrow> int option \<Rightarrow> int option \<Rightarrow> string option \<Rightarrow> api_filter list" where
  "request_filters v year month quarter =
     (case quarter_filters year quarter of
        None \<Rightarrow> [] | Some qf \<Rightarrow> qf @ month_filters v year month quarter)"

definition poll_body :: "variant \<Rightarrow> int option \<Rightarrow> int option \<Rightarrow> string option \<Rightarrow> api_filter list" where
  "poll_body v year month quarter =
     (if v = ApiMonthly then request_filters v year month quarter else [])"

section \<open>Concrete inputs\<close>

definition started :: json where
  "started = JObj [(''code'', JNum 0), (''data'', JObj [(''message'', JStr ''Download initiated'')])]"

definition ready :: json where
  "ready = JObj [(''code'', JNum 0), (''data'', JObj [(''url'', JStr ''https://example.org/file.csv'')])]"

definition no_files :: files where
  "no_files =
     \<lparr>properties_file = None, properties_new_file = None, properties_metadata = None,
      latest_prices_file = None, prices_latest_metadata = None,
      latest_aggprices_file = None, agg_prices_latest_metadata = None,
      prices_1990_1999 = None, prices_2000_2012 = None, prices_2012_2014 = None,
      prices_2015_2016 = None\<rparr>"

text \<open>A world in which no request gets through; every file can be written.\<close>

definition offline :: world where
  "offline =
     \<lparr>initiate_download = (\<lambda>d f. Raises),
      poll_download = (\<lambda>d f i. Raises),
      read_csv_url = (\<lambda>u. Raises),
      onemap_search = (\<lambda>i k. Raises),
      float_of_text = (\<lambda>s. None),
      text_of_value = (\<lambda>c. ''0''),
      now_iso = ''2024-04-02T06:00:00'',
      today = (2024, 4, 2),
      write_outcome = (\<lambda>name. Written)\<rparr>"

text \<open>Two building rows: both residential and commercial, and no flag set.\<close>

definition row_residential_commercial :: row where
  "row_residential_commercial =
     [(''residential'', Str ''Y''), (''commercial'', Str ''Y''), (''market_hawker'', Str ''N''),
      (''miscellaneous'', Str ''N''), (''multistorey_carpark'', Str ''N''),
      (''precinct_pavilion'', Str ''N'')]"

definition row_no_flag :: row where
  "row_no_flag =
     [(''residential'', Str ''N''), (''commercial'', Str ''N''), (''market_hawker'', Str ''N''),
      (''miscellaneous'', Str ''N''), (''multistorey_carpark'', Str ''N''),
      (''precinct_pavilion'', Str ''N'')]"

text \<open>A world in which every request is answered at once with a download link.\<close>

definition online :: world where
  "online =
     offline\<lparr>initiate_download := (\<lambda>d f. Returns started),
              poll_download := (\<lambda>d f i. Returns ready)\<rparr>"

text \<open>The resale transactions the service returns for March 2024: one row.\<close>

definition price_batch :: dataframe where
  "price_batch =
     \<lparr>columns = [''month'', ''town'', ''flat_type'', ''street_name'', ''floor_area_sqm'',
                 ''resale_price''],
      rows = [[(''month'', Str ''2024-03''), (''town'', Str ''BEDOK''),
               (''flat_type'', Str ''4 ROOM''), (''street_name'', Str ''BEDOK NTH AVE 1''),
               (''floor_area_sqm'', Num 100), (''resale_price'', Num 500000)]]\<rparr>"

definition w_prices :: world where
  "w_prices = online\<lparr>read_csv_url := (\<lambda>u. Returns price_batch)\<rparr>"

text \<open>Stores whose files cannot be parsed.\<close>

definition corrupt_files :: files where
  "corrupt_files =
     no_files\<lparr>properties_file := Some Unreadable, latest_prices_file := Some Unreadable,
               latest_aggprices_file := Some Unreadable\<rparr>"

text \<open>
  The initiating request was built and answered by JSON that passes the test for
  \<open>data.message\<close> and has a value there; and: it was answered by JSON for which the
  test is false.
\<close>

definition initiated :: "variant \<Rightarrow> world \<Rightarrow> string \<Rightarrow> int option \<Rightarrow> int option \<Rightarrow> string option \<Rightarrow> bool" where
  "initiated v w dataset_id year month quarter =
     (quarter_filters year quarter \<noteq> None \<and> request_filters v year month quarter \<noteq> []
      \<and> (case initiate_download w dataset_id (request_filters v year month quarter) of
            Raises \<Rightarrow> False
          | Returns j \<Rightarrow> has_field ''data'' ''message'' j = Inr True
                         \<and> \<not> isl (field ''data'' ''message'' j)))"



text \<open>
  Worlds for the polling loop: the first poll answered by an object without \<open>data\<close>,
  the second by one whose \<open>data\<close> has no \<open>url\<close>, the third by a link; a service
  that never has a link; one whose poll answers never have \<open>data\<close>; one whose
  initiating answer has no \<open>message\<close>; one whose second poll is answered with
  \<open>{"data": null}\<close>; one whose initiating answer is that; and one whose link cannot
  be loaded.
\<close>

definition late_link :: world where
  "late_link =
     w_prices\<lparr>poll_download :=
        (\<lambda>d f i. if i = 0 then Returns (JObj [(''code'', JNum 1)])
                  else if i = 1 then Returns (JObj [(''data'', JObj [(''status'', JStr ''pending'')])])
                  else Returns ready)\<rparr>"

definition never_ready :: world where
  "never_ready = w_prices\<lparr>poll_download := (\<lambda>d f i. Returns started)\<rparr>"

definition malformed_polls :: world where
  "malformed_polls = w_prices\<lparr>poll_download := (\<lambda>d f i. Returns (JObj [(''code'', JNum 1)]))\<rparr>"

definition bad_initiate :: world where
  "bad_initiate = w_prices\<lparr>initiate_download := (\<lambda>d f. Returns (JObj [(''data'', JObj [])]))\<rparr>"

definition null_data :: world where
  "null_data =
     w_prices\<lparr>poll_download :=
        (\<lambda>d f i. if i = 0 then Returns (JObj [(''code'', JNum 1)])
                  else Returns (JObj [(''data'', JNull)]))\<rparr>"

definition null_initiate :: world where
  "null_initiate = w_prices\<lparr>initiate_download := (\<lambda>d f. Returns (JObj [(''data'', JNull)]))\<rparr>"

definition dead_link :: world where
  "dead_link = w_prices\<lparr>read_csv_url := (\<lambda>u. Raises)\<rparr>"

text \<open>Every file an update writes can be written.\<close>

definition store_files :: "string list" where
  "store_files =
     [''properties_combined_new.json'', ''properties_combined.json'', ''properties_metadata.json'',
      ''prices_2017_onwards.csv'', ''prices_latest_metadata.json'',
      ''agg_prices.csv'', ''agg_prices_latest_metadata.json'']"

definition writes_ok :: "world \<Rightarrow> bool" where
  "writes_ok w = list_all (\<lambda>name. write_outcome w name = Written) store_files"

text \<open>
  The world \<open>w_prices\<close> with a disk on which the metadata of the prices store cannot
  be opened for writing.
\<close>

definition w_meta_fails :: world where
  "w_meta_fails =
     w_prices\<lparr>write_outcome :=
        (\<lambda>name. if name = ''prices_latest_metadata.json'' then OpenFails else Written)\<rparr>"


text \<open>
  A batch of one new block with a given town code, the geocoding answer for it, and
  the entry of \<open>blocks_coordinates\<close> the first loop builds from the two.
\<close>

definition block_csv :: "string \<Rightarrow> dataframe" where
  "block_csv town_code =
     \<lparr>columns = [''blk_no'', ''street'', ''max_floor_lvl'', ''year_completed'', ''residential'',
                 ''commercial'', ''market_hawker'', ''miscellaneous'', ''multistorey_carpark'',
                 ''precinct_pavilion'', ''bldg_contract_town'', ''total_dwelling_units''],
      rows = [[(''blk_no'', Str ''101''), (''street'', Str ''BEDOK NTH AVE 1''),
               (''max_floor_lvl'', Num 12), (''year_completed'', Num 2024),
               (''residential'', Str ''Y''), (''commercial'', Str ''N''),
               (''market_hawker'', Str ''N''), (''miscellaneous'', Str ''N''),
               (''multistorey_carpark'', Str ''N''), (''precinct_pavilion'', Str ''N''),
               (''bldg_contract_town'', Str town_code), (''total_dwelling_units'', Num 96)]]\<rparr>"

definition geo_hit :: "json reply" where
  "geo_hit =
     Returns (JObj [(''found'', JNum 1),
                    (''results'',
                     JArr [JObj [(''ADDRESS'', JStr ''101 BEDOK NORTH AVENUE 1 SINGAPORE 460101''),
                                 (''LATITUDE'', JStr ''1.33''), (''LONGITUDE'', JStr ''103.93''),
                                 (''BUILDING'', JStr ''NIL'')]])])"

definition geo_miss :: "json reply" where
  "geo_miss = Returns (JObj [(''found'', JNum 0), (''results'', JArr [])])"

definition w_blocks :: "string \<Rightarrow> world" where
  "w_blocks town_code =
     online\<lparr>read_csv_url := (\<lambda>u. Returns (block_csv town_code)),
             onemap_search := (\<lambda>i k. geo_hit),
             float_of_text := (\<lambda>s. if s = ''1.33'' then Some (133 / 100)
                                    else if s = ''103.93'' then Some (10393 / 100) else None)\<rparr>"

text \<open>
  The same batch in a world whose geocoder finds nothing for the block, and in one
  whose geocoder cannot be reached.
\<close>

definition w_unlocated :: "string \<Rightarrow> world" where
  "w_unlocated town_code = (w_blocks town_code)\<lparr>onemap_search := (\<lambda>i k. geo_miss)\<rparr>"

definition w_geo_down :: "string \<Rightarrow> world" where
  "w_geo_down town_code = (w_blocks town_code)\<lparr>onemap_search := (\<lambda>i k. Raises)\<rparr>"

definition located_block :: "string \<Rightarrow> row" where
  "located_block town_code =
     hd (rows (block_csv town_code))
     @ [(''address'', Str ''101 BEDOK NORTH AVENUE 1 SINGAPORE 460101''),
        (''latitude'', Str ''1.33''), (''longitude'', Str ''103.93''), (''building'', Str ''NIL'')]"

text \<open>
  The frame an update writes, from the table downloaded and the table on disk (if any):
  the enrichment followed by the merge.
\<close>

definition combined_prices ::
  "variant \<Rightarrow> dataframe option \<Rightarrow> dataframe \<Rightarrow> int \<Rightarrow> int \<Rightarrow> py_error + dataframe" where
  "combined_prices v existing month_df0 year month =
     ebind (enrich_prices_data v month_df0) (\<lambda>month_df.
       case existing of
         None \<Rightarrow> Inr month_df
       | Some t \<Rightarrow> merge_prices v (disk_table t) month_df year month)"

definition combined_aggprices ::
  "dataframe option \<Rightarrow> dataframe \<Rightarrow> string \<Rightarrow> py_error + dataframe" where
  "combined_aggprices existing quarter_df0 quarter_str =
     ebind (enrich_aggprices quarter_df0) (\<lambda>quarter_df.
       Inr (case existing of
              None \<Rightarrow> quarter_df
            | Some t \<Rightarrow> merge_aggprices (disk_table t) quarter_df quarter_str))"

text \<open>What is written to disk: the table and its number of rows.\<close>

definition written :: "py_error + dataframe \<Rightarrow> py_error + dataframe \<times> nat" where
  "written r = (case r of Inl e \<Rightarrow> Inl e | Inr c \<Rightarrow> Inr (disk_table c, length (rows c)))"

text \<open>The metadata sidecar an update writes at the fixed clock of the concrete worlds.\<close>

definition sidecar :: "string \<Rightarrow> nat \<Rightarrow> metadata stored option" where
  "sidecar period n =
     Some (Holds \<lparr>last_updated = ''2024-04-02T06:00:00'', last_month_added = period,
                  record_count = n\<rparr>)"

text \<open>
  The quarterly prices the service returns for 2024-Q1 (one row, without and with the
  \<open>quarter\<close> column), a store that already holds a row for 2024-Q1 and one for
  2023-Q4, and that store after the update.
\<close>

definition agg_batch :: dataframe where
  "agg_batch =
     \<lparr>columns = [''town'', ''flat_type'', ''price''],
      rows = [[(''town'', Str ''Bedok''), (''flat_type'', Str ''4-room''), (''price'', Num 520000)]]\<rparr>"

definition agg_batch_labelled :: dataframe where
  "agg_batch_labelled =
     \<lparr>columns = [''quarter'', ''town'', ''flat_type'', ''price''],
      rows = [[(''quarter'', Str ''2024-Q1''), (''town'', Str ''Bedok''),
               (''flat_type'', Str ''4-room''), (''price'', Num 520000)]]\<rparr>"

definition w_agg :: world where
  "w_agg = online\<lparr>read_csv_url := (\<lambda>u. Returns agg_batch)\<rparr>"

definition w_agg_labelled :: world where
  "w_agg_labelled = online\<lparr>read_csv_url := (\<lambda>u. Returns agg_batch_labelled)\<rparr>"

definition stale_row :: row where
  "stale_row = [(''quarter'', Str ''2024-Q1''), (''town'', Str ''BEDOK''),
                (''flat_type'', Str ''4 ROOM''), (''price'', Num 480000)]"

definition other_quarter_row :: row where
  "other_quarter_row = [(''quarter'', Str ''2023-Q4''), (''town'', Str ''BEDOK''),
                        (''flat_type'', Str ''4 ROOM''), (''price'', Num 470000)]"

definition fresh_row :: row where
  "fresh_row = [(''quarter'', Str ''2024-Q1''), (''town'', Str ''BEDOK''),
                (''flat_type'', Str ''4 ROOM''), (''price'', Num 520000)]"

definition agg_table :: dataframe where
  "agg_table =
     \<lparr>columns = [''quarter'', ''town'', ''flat_type'', ''price''],
      rows = [other_quarter_row, stale_row]\<rparr>"

definition agg_store :: files where
  "agg_store = no_files\<lparr>latest_aggprices_file := Some (Holds agg_table)\<rparr>"

definition merged_agg_table :: dataframe where
  "merged_agg_table =
     \<lparr>columns = [''quarter'', ''town'', ''flat_type'', ''price''],
      rows = [other_quarter_row, stale_row, fresh_row]\<rparr>"

definition agg_store_merged :: files where
  "agg_store_merged =
     agg_store\<lparr>latest_aggprices_file := Some (Holds merged_agg_table),
                agg_prices_latest_metadata := sidecar ''2024-Q1'' 3\<rparr>"

text \<open>
  The March 2024 transaction as either copy of the extractor writes it, and the
  stores that hold the given copies of it; likewise for the 2024-Q1 price.
\<close>

definition price_row :: "variant \<Rightarrow> row" where
  "price_row v =
     [(''date'', Str ''2024-03-01''), (''town'', Str ''BEDOK''), (''flat_type'', Str ''4 ROOM''),
      (''street_name'', Str ''BEDOK NTH AVE 1''), (''floor_area_sqm'', Num 100),
      (''price'', Num 500000), (''price_per_sqm'', Num 5000)]
     @ (if v = ApiDaily then [] else [(''year'', Num 2024), (''month_num'', Num 3)])"

definition price_table :: "variant \<Rightarrow> row list \<Rightarrow> dataframe" where
  "price_table v rs = \<lparr>columns = map fst (price_row v), rows = rs\<rparr>"

definition prices_store :: "variant \<Rightarrow> row list \<Rightarrow> files" where
  "prices_store v rs =
     no_files\<lparr>latest_prices_file := Some (Holds (price_table v rs)),
               prices_latest_metadata := sidecar ''2024-03'' (length rs)\<rparr>"

definition aggprice_row :: row where
  "aggprice_row =
     [(''town'', Str ''BEDOK''), (''flat_type'', Str ''4 ROOM''), (''price'', Num 520000),
      (''quarter'', Str ''2024-Q1'')]"

definition aggprice_table :: "row list \<Rightarrow> dataframe" where
  "aggprice_table rs = \<lparr>columns = map fst aggprice_row, rows = rs\<rparr>"

definition aggprices_store :: "row list \<Rightarrow> files" where
  "aggprices_store rs =
     no_files\<lparr>latest_aggprices_file := Some (Holds (aggprice_table rs)),
               agg_prices_latest_metadata := sidecar ''2024-Q1'' (length rs)\<rparr>"

text \<open>
  The table \<open>download_file\<close> returns for March 2024 in the world \<open>w_prices\<close>, and
  the one it returns for 2024-Q1 in the world \<open>w_agg\<close>.
\<close>

definition march_frame :: dataframe where
  "march_frame =
     \<lparr>columns = [''month'', ''town'', ''flat_type'', ''street_name'', ''floor_area_sqm'',
                 ''resale_price''],
      rows = [[(''month'', Ts 2024 3 1), (''town'', Str ''BEDOK''),
               (''flat_type'', Str ''4 ROOM''), (''street_name'', Str ''BEDOK NTH AVE 1''),
               (''floor_area_sqm'', Num 100), (''resale_price'', Num 500000)]]\<rparr>"

definition q1_frame :: dataframe where
  "q1_frame =
     \<lparr>columns = [''town'', ''flat_type'', ''price'', ''quarter''],
      rows = [[(''town'', Str ''Bedok''), (''flat_type'', Str ''4-room''), (''price'', Num 520000),
               (''quarter'', Str ''2024-Q1'')]]\<rparr>"

section \<open>Category tag\<close>

text \<open>
  C6. For every building row that carries the six flags, \<open>tagging\<close> returns the tag of
  the first flag equal to \<open>"Y"\<close> in the order residential, commercial, market/hawker,
  miscellaneous, multi-storey carpark, precinct/pavilion (the last one tagged
  "Miscellaneous" too), and no tag when no flag is \<open>"Y"\<close>. A row with residential
  \<open>"Y"\<close> is tagged "Residential" whatever its other flags are; a row none of whose
  flags is \<open>"Y"\<close> is untagged.
\<close>

theorem tagging_first_match:
  "((\<forall>f \<in> set flag_columns. map_of d f \<noteq> None) \<longrightarrow>
      tagging d = Inr (first_flag tag_priority d))
   \<and> (map_of d ''residential'' = Some (Str ''Y'') \<longrightarrow> tagging d = Inr (Some ''Residential''))
   \<and> ((\<forall>f \<in> set flag_columns. \<exists>v. map_of d f = Some v \<and> v \<noteq> Str ''Y'') \<longrightarrow>
      tagging d = Inr None)"
proof (intro conjI impI)
  assume "\<forall>f \<in> set flag_columns. map_of d f \<noteq> None"
  then obtain v1 v2 v3 v4 v5 v6 where
    "map_of d ''residential'' = Some v1" "map_of d ''commercial'' = Some v2"
    "map_of d ''market_hawker'' = Some v3" "map_of d ''miscellaneous'' = Some v4"
    "map_of d ''multistorey_carpark'' = Some v5" "map_of d ''precinct_pavilion'' = Some v6"
    by (auto simp: flag_columns_def tag_priority_def)
  then show "tagging d = Inr (first_flag tag_priority d)"
    by (simp add: tagging_def tag_priority_def ebind_def getitem_def)
next
  assume "map_of d ''residential'' = Some (Str ''Y'')"
  then show "tagging d = Inr (Some ''Residential'')"
    by (simp add: tagging_def ebind_def getitem_def)
next
  assume "\<forall>f \<in> set flag_columns. \<exists>v. map_of d f = Some v \<and> v \<noteq> Str ''Y''"
  then obtain v1 v2 v3 v4 v5 v6 where
    "map_of d ''residential'' = Some v1 \<and> v1 \<noteq> Str ''Y''"
    "map_of d ''commercial'' = Some v2 \<and> v2 \<noteq> Str ''Y''"
    "map_of d ''market_hawker'' = Some v3 \<and> v3 \<noteq> Str ''Y''"
    "map_of d ''miscellaneous'' = Some v4 \<and> v4 \<noteq> Str ''Y''"
    "map_of d ''multistorey_carpark'' = Some v5 \<and> v5 \<noteq> Str ''Y''"
    "map_of d ''precinct_pavilion'' = Some v6 \<and> v6 \<noteq> Str ''Y''"
    by (auto simp: flag_columns_def tag_priority_def)
  then show "tagging d = Inr None"
    by (simp add: tagging_def ebind_def getitem_def)
qed

theorem tagging_first_match_witness:
  "tagging row_residential_commercial = Inr (Some ''Residential'')
   \<and> first_flag tag_priority row_residential_commercial = Some ''Residential''
   \<and> tagging row_no_flag = Inr None"
proof -
  have a: "\<forall>f \<in> set flag_columns. map_of row_residential_commercial f \<noteq> None"
    by (simp add: flag_columns_def tag_priority_def row_residential_commercial_def)
  have b: "map_of row_residential_commercial ''residential'' = Some (Str ''Y'')"
    by (simp add: row_residential_commercial_def)
  have c: "\<forall>f \<in> set flag_columns. \<exists>v. map_of row_no_flag f = Some v \<and> v \<noteq> Str ''Y''"
    by (simp add: flag_columns_def tag_priority_def row_no_flag_def)
  from tagging_first_match [of row_residential_commercial] a b
  have "tagging row_residential_commercial = Inr (first_flag tag_priority row_residential_commercial)"
    and "tagging row_residential_commercial = Inr (Some ''Residential'')"
    by blast+
  moreover from tagging_first_match [of row_no_flag] c have "tagging row_no_flag = Inr None"
    by blast
  ultimately show ?thesis by simp
qed

section \<open>Running the model on concrete inputs\<close>

text \<open>The defining equations, for computing with the simplifier.\<close>

lemmas eval_defs = ebind_def getitem_def cell_at_def set_col_def select_rows_def
  rename_col_def reindex_def concat_cols_def pd_concat_def frame_of_records_def py_str_def
  fmt_02d_def is_digit_def digit_val_def nat_of_digits_def leap_year_def days_in_month_def
  valid_date_def to_datetime_str_def month_end_of_def date_le_def pad_left_def
  iso_of_date_def to_datetime_cell_def to_datetime_col_def cell_in_range_def is_ts_def
  is_datetime64_dtype_def is_object_dtype_def str_method_def upper_char_def upper_def
  replace_hyphen_def startswith_def py_in_def py_item_def py_first_def truthy_def
  has_field_def field_def cell_of_json_def div_cell_def tagging_def tag_priority_def
  legend_def legend_lookup_def csv_cell_def disk_table_def truthy_int_def truthy_str_def
  fmt_year_def quarter_label_def quarter_filters_def month_filters_def narrow_to_month_def
  add_quarter_def after_download_def download_file_def dt_year_def dt_month_def
  price_per_sqm_def year_month_cols_def enrich_prices_data_def to_dict_def locate_block_def
  py_float_def tag_cell_def property_record_def property_columns_def located_blocks_def
  enrich_properties_data_def read_stored_def write_file_def get_dataset_id_for_period_def
  period_column_def strftime_date_def merge_prices_def prices_try_def caught_def
  update_latest_prices_dataset_def str_column_def fillna_price_def central_area_def
  enrich_aggprices_def quarter_str_of_def merge_aggprices_def aggprices_try_def
  update_latest_aggprices_dataset_def astype_str_def address_cell_def with_address_def
  address_column_def drop_duplicate_addresses_def merge_properties_def properties_try_def
  update_latest_properties_dataset_def or_else_def prev_month_def this_month_def
  default_period_def extract_monthly_data_def run_def segment_file_def parse_start_date_def
  parse_end_date_def segments_to_load_def load_segment_def loaded_frames_def concat_all_def
  load_prices_data_for_period_def kind_def cell_le_def sort_by_def is_number_def
  is_missing_def midpoint_def median_def to_numeric_def group_key_def group_keys_def
  group_prices_def groupby_median_def is_space_def strip_def strftime_ym_def
  requested_towns_def filter_towns_def numeric_price_def get_prices_local_def
  request_filters_def poll_body_def started_def ready_def no_files_def offline_def
  row_residential_commercial_def row_no_flag_def online_def price_batch_def w_prices_def
  corrupt_files_def late_link_def never_ready_def malformed_polls_def bad_initiate_def
  null_data_def null_initiate_def dead_link_def w_meta_fails_def block_csv_def geo_hit_def
  geo_miss_def w_blocks_def w_unlocated_def w_geo_down_def located_block_def
  combined_prices_def combined_aggprices_def written_def sidecar_def agg_batch_def
  agg_batch_labelled_def w_agg_def w_agg_labelled_def stale_row_def other_quarter_row_def
  fresh_row_def agg_table_def agg_store_def merged_agg_table_def agg_store_merged_def
  price_row_def price_table_def prices_store_def aggprice_row_def aggprice_table_def
  aggprices_store_def march_frame_def q1_frame_def Let_def digits.simps

lemma MAX_POLLS_Suc: "MAX_POLLS = Suc (Suc (Suc (Suc (Suc 0))))"
  by (simp add: MAX_POLLS_def)

section \<open>Polling for the download\<close>




lemma poll_loop_link:
  "(\<forall>j < k. no_link w ds body (i + j)) \<Longrightarrow> has_link w ds body (i + k) u \<Longrightarrow> k < n \<Longrightarrow>
   poll_loop w ds body y m q i n =
     (\<lparr>polls = Suc (i + k), slept = 3 * (i + k)\<rparr>, after_download w y m q u)"
proof (induction k arbitrary: i n)
  case 0
  then obtain n' where "n = Suc n'" by (cases n) auto
  with 0 show ?case by (auto simp: has_link_def split: reply.splits)
next
  case (Suc k)
  then obtain n' where n: "n = Suc n'" "k < n'" by (cases n) auto
  from Suc.prems have h0: "no_link w ds body i" by force
  have a: "\<forall>j<k. no_link w ds body (Suc i + j)"
  proof (intro allI impI)
    fix j assume "j < k"
    then have "Suc j < Suc k" by simp
    with Suc.prems have "no_link w ds body (i + Suc j)" by blast
    then show "no_link w ds body (Suc i + j)" by simp
  qed
  from Suc.prems have b: "has_link w ds body (Suc i + k) u" by simp
  from Suc.IH[OF a b n(2)] h0 n(1) show ?case
    by (auto simp: no_link_def split: reply.splits)
qed


lemma download_initiated:
  assumes "initiated v w ds y m q"
  shows "download_file v w ds y m q = poll_loop w ds (poll_body v y m q) y m q 0 MAX_POLLS"
proof -
  from assms obtain qf where qf: "quarter_filters y q = Some qf"
    by (auto simp: initiated_def)
  from assms qf have ne: "qf @ month_filters v y m q \<noteq> []"
    by (simp add: initiated_def request_filters_def)
  from assms qf obtain j where
    j: "initiate_download w ds (qf @ month_filters v y m q) = Returns j"
       "has_field ''data'' ''message'' j = Inr True" "\<not> isl (field ''data'' ''message'' j)"
    by (auto simp: initiated_def request_filters_def split: reply.splits)
  from j(3) obtain msg where msg: "field ''data'' ''message'' j = Inr msg"
    by (cases "field ''data'' ''message'' j") auto
  show ?thesis
    unfolding download_file_def poll_body_def request_filters_def
    using ne by (auto simp: qf j msg Let_def)
qed





lemma has_field_scalar:
  "has_field k1 k2 JNull = Inl TypeError" "has_field k1 k2 (JNum n) = Inl TypeError"
  "has_field k1 k2 (JBool b) = Inl TypeError"
  by (simp_all add: has_field_def py_in_def ebind_def)

lemma download_raises:
  "(\<And>f. initiate_download w ds f = Raises) \<Longrightarrow> isl (snd (download_file v w ds y m q))"
  by (simp add: download_file_def Let_def split: option.splits)

lemma offline_download: "isl (snd (download_file v offline ds y m q))"
  by (rule download_raises) (simp add: offline_def)

text \<open>In a world that answers like \<open>online\<close>, the first poll has the link.\<close>

lemma download_first_poll:
  assumes "initiate_download w = initiate_download online"
    and "poll_download w = poll_download online"
    and "quarter_filters y q \<noteq> None" and "request_filters v y m q \<noteq> []"
  shows "download_file v w ds y m q =
           (\<lparr>polls = 1, slept = 0\<rparr>,
            after_download w y m q (JStr ''https://example.org/file.csv''))"
proof -
  have i: "initiated v w ds y m q"
    using assms
    by (simp add: initiated_def online_def started_def has_field_def field_def py_in_def
          py_item_def ebind_def)
  have "has_link w ds (poll_body v y m q) (0 + 0) (JStr ''https://example.org/file.csv'')"
    using assms
    by (simp add: has_link_def online_def ready_def has_field_def field_def py_in_def
          py_item_def ebind_def)
  then have "poll_loop w ds (poll_body v y m q) y m q 0 MAX_POLLS =
      (\<lparr>polls = Suc (0 + 0), slept = 3 * (0 + 0)\<rparr>,
       after_download w y m q (JStr ''https://example.org/file.csv''))"
    by (intro poll_loop_link) (simp_all add: MAX_POLLS_def)
  with i show ?thesis by (simp add: download_initiated)
qed

lemma month_request: "request_filters v (Some 2024) (Some 3) None \<noteq> []"
  by (simp add: request_filters_def quarter_filters_def month_filters_def truthy_str_def
        truthy_int_def)

lemma quarter_request:
  "quarter_filters (Some 2024) (Some ''Q1'') \<noteq> None"
  "request_filters v (Some 2024) None (Some ''Q1'') \<noteq> []"
  by (simp_all add: request_filters_def quarter_filters_def truthy_str_def truthy_int_def)

section \<open>What an update writes\<close>

lemma writes_ok_files:
  assumes "writes_ok w"
  shows "write_outcome w ''properties_combined_new.json'' = Written"
    "write_outcome w ''properties_combined.json'' = Written"
    "write_outcome w ''properties_metadata.json'' = Written"
    "write_outcome w ''prices_2017_onwards.csv'' = Written"
    "write_outcome w ''prices_latest_metadata.json'' = Written"
    "write_outcome w ''agg_prices.csv'' = Written"
    "write_outcome w ''agg_prices_latest_metadata.json'' = Written"
  using assms by (simp_all add: writes_ok_def store_files_def)

lemma prices_update_eq:
  assumes "2017 \<le> year"
    and "snd (download_file v w ''d_8b84c4ee58e3cfc0ece0d773c8ca6abc'' (Some year) (Some month)
               None) = Inr fetched"
    and "rows fetched \<noteq> []"
    and "latest_prices_file fs = map_option Holds existing"
    and "written (combined_prices v existing fetched year month) = Inr (t, n)"
    and "writes_ok w"
  shows "update_latest_prices_dataset v w fs year month =
           (fs\<lparr>latest_prices_file := Some (Holds t),
               prices_latest_metadata :=
                 Some (Holds \<lparr>last_updated = now_iso w,
                              last_month_added = py_str year @ ''-'' @ fmt_02d month,
                              record_count = n\<rparr>)\<rparr>, True)"
proof -
  from assms(1) have id: "get_dataset_id_for_period year = Some ''d_8b84c4ee58e3cfc0ece0d773c8ca6abc''"
    by (simp add: get_dataset_id_for_period_def)
  from assms(5) obtain c where
    c: "combined_prices v existing fetched year month = Inr c" "t = disk_table c"
       "n = length (rows c)"
    by (auto simp: written_def split: sum.splits)
  show ?thesis
  proof (cases existing)
    case None
    with assms c id show ?thesis
      by (auto simp: update_latest_prices_dataset_def prices_try_def caught_def
            combined_prices_def ebind_def write_file_def writes_ok_files split: sum.splits)
  next
    case (Some ex)
    with assms c id show ?thesis
      by (auto simp: update_latest_prices_dataset_def prices_try_def caught_def
            combined_prices_def ebind_def read_stored_def write_file_def writes_ok_files
          split: sum.splits)
  qed
qed

lemma aggprices_update_eq:
  assumes "snd (download_file v w ''d_b51323a474ba789fb4cc3db58a3116d4'' (Some year) None
                 (Some (quarter_str_of month))) = Inr fetched"
    and "rows fetched \<noteq> []"
    and "latest_aggprices_file fs = map_option Holds existing"
    and "written (combined_aggprices existing fetched (quarter_str_of month)) = Inr (t, n)"
    and "writes_ok w"
  shows "update_latest_aggprices_dataset v w fs year month =
           (fs\<lparr>latest_aggprices_file := Some (Holds t),
               agg_prices_latest_metadata :=
                 Some (Holds \<lparr>last_updated = now_iso w,
                              last_month_added = py_str year @ ''-'' @ quarter_str_of month,
                              record_count = n\<rparr>)\<rparr>, True)"
proof -
  from assms(4) obtain c where
    c: "combined_aggprices existing fetched (quarter_str_of month) = Inr c"
       "t = disk_table c" "n = length (rows c)"
    by (auto simp: written_def split: sum.splits)
  show ?thesis
  proof (cases existing)
    case None
    with assms c show ?thesis
      by (auto simp: update_latest_aggprices_dataset_def aggprices_try_def caught_def
            combined_aggprices_def ebind_def write_file_def writes_ok_files split: sum.splits)
  next
    case (Some ex)
    with assms c show ?thesis
      by (auto simp: update_latest_aggprices_dataset_def aggprices_try_def caught_def
            combined_aggprices_def ebind_def read_stored_def write_file_def writes_ok_files
          split: sum.splits)
  qed
qed

section \<open>The concrete worlds\<close>

lemma march_download:
  "download_file v w_prices ds (Some 2024) (Some 3) None = (\<lparr>polls = 1, slept = 0\<rparr>, Inr march_frame)"
proof -
  have "after_download w_prices (Some 2024) (Some 3) None (JStr ''https://example.org/file.csv'')
          = Inr march_frame"
    by (simp add: eval_defs)
  moreover have "quarter_filters (Some 2024) None \<noteq> None"
    by (simp add: quarter_filters_def truthy_str_def)
  ultimately show ?thesis
    using download_first_poll [where w = w_prices and y = "Some 2024" and q = None and v = v
        and m = "Some 3" and ds = ds] month_request [of v]
    by (simp add: w_prices_def)
qed

lemma q1_download:
  "download_file v w_agg ds (Some 2024) None (Some ''Q1'') = (\<lparr>polls = 1, slept = 0\<rparr>, Inr q1_frame)"
proof -
  have "after_download w_agg (Some 2024) None (Some ''Q1'') (JStr ''https://example.org/file.csv'')
          = Inr q1_frame"
    by (simp add: eval_defs)
  then show ?thesis
    using download_first_poll [where w = w_agg and y = "Some 2024" and q = "Some ''Q1''" and v = v
        and m = None and ds = ds] quarter_request
    by (simp add: w_agg_def)
qed

lemma q1_download_labelled:
  "download_file v w_agg_labelled ds (Some 2024) None (Some ''Q1'')
     = (\<lparr>polls = 1, slept = 0\<rparr>, Inr agg_batch_labelled)"
proof -
  have "after_download w_agg_labelled (Some 2024) None (Some ''Q1'') (JStr ''https://example.org/file.csv'')
          = Inr agg_batch_labelled"
    by (simp add: eval_defs)
  then show ?thesis
    using download_first_poll [where w = w_agg_labelled and y = "Some 2024" and q = "Some ''Q1''"
        and v = v and m = None and ds = ds] quarter_request
    by (simp add: w_agg_labelled_def)
qed

lemma quarter_of_february: "quarter_str_of 2 = ''Q1''"
  by (simp add: eval_defs)

lemma period_texts: "py_str 2024 = ''2024''" "fmt_02d 3 = ''03''"
  by (simp_all add: eval_defs)

lemma worlds_write:
  "writes_ok offline" "writes_ok online" "writes_ok w_prices" "writes_ok w_agg"
  "writes_ok w_agg_labelled" "writes_ok (w_blocks c)" "writes_ok (w_unlocated c)"
  "writes_ok (w_geo_down c)"
  by (simp_all add: writes_ok_def store_files_def offline_def online_def w_prices_def w_agg_def
        w_agg_labelled_def w_blocks_def w_unlocated_def w_geo_down_def)

lemma clocks:
  "now_iso w_prices = ''2024-04-02T06:00:00''" "now_iso w_agg = ''2024-04-02T06:00:00''"
  "now_iso w_agg_labelled = ''2024-04-02T06:00:00''"
  by (simp_all add: eval_defs)

lemma prices_written_first:
  "written (combined_prices v None march_frame 2024 3) = Inr (price_table v [price_row v], 1)"
  by (cases v) (simp_all add: eval_defs)

lemma prices_written_second_top:
  "written (combined_prices TopMonthly (Some (price_table TopMonthly [price_row TopMonthly]))
              march_frame 2024 3)
     = Inr (price_table TopMonthly [price_row TopMonthly, price_row TopMonthly], 2)"
  by (simp add: eval_defs)

lemma prices_written_second_daily:
  "written (combined_prices ApiDaily (Some (price_table ApiDaily [price_row ApiDaily]))
              march_frame 2024 3)
     = Inr (price_table ApiDaily [price_row ApiDaily], 1)"
  by (simp add: eval_defs)

lemma aggprices_written_first:
  "written (combined_aggprices None q1_frame ''Q1'') = Inr (aggprice_table [aggprice_row], 1)"
  by (simp add: eval_defs)

lemma aggprices_written_second:
  "written (combined_aggprices (Some (aggprice_table [aggprice_row])) q1_frame ''Q1'')
     = Inr (aggprice_table [aggprice_row, aggprice_row], 2)"
  by (simp add: eval_defs)

lemma aggprices_written_store:
  "written (combined_aggprices (Some agg_table) q1_frame ''Q1'') = Inr (merged_agg_table, 3)"
  "written (combined_aggprices (Some agg_table) agg_batch_labelled ''Q1'') = Inr (merged_agg_table, 3)"
  by (simp_all add: eval_defs)

section \<open>Failure of an update\<close>








lemma prices_download_fails:
  "isl (snd (download_file v w (the (get_dataset_id_for_period year)) (Some year) (Some month) None)) \<Longrightarrow>
   update_latest_prices_dataset v w fs year month = (fs, False)"
  by (auto simp: update_latest_prices_dataset_def prices_try_def caught_def
           split: option.splits sum.splits)

lemma aggprices_download_fails:
  "isl (snd (download_file v w ''d_b51323a474ba789fb4cc3db58a3116d4'' (Some year) None
              (Some (quarter_str_of month)))) \<Longrightarrow>
   update_latest_aggprices_dataset v w fs year month = (fs, False)"
  by (auto simp: update_latest_aggprices_dataset_def aggprices_try_def caught_def
           split: sum.splits)

lemma properties_download_fails:
  "isl (snd (download_file v w ''d_17f5382f26140b1fdae0ba2ef6239d2f'' (Some year)
              (if v = ApiMonthly then None else Some month) None)) \<Longrightarrow>
   update_latest_properties_dataset v w fs year month = (fs, False)"
  by (cases "v = ApiMonthly")
     (auto simp: update_latest_properties_dataset_def properties_try_def caught_def
           split: sum.splits option.splits)
























section \<open>Town-code lookup\<close>















section \<open>Orchestration\<close>

text \<open>
  C10. \<open>extract_monthly_data\<close> and both \<open>run\<close> functions return \<open>True\<close> for every
  year and month, given or defaulted, in every world and for every store. With no
  service reachable all three updates of March 2024 return \<open>False\<close> and leave the
  store as it was, and \<open>extract_monthly_data\<close> returns \<open>True\<close> all the same.
\<close>

lemma offline_updates:
  "update_latest_properties_dataset v offline fs year month = (fs, False)"
  "update_latest_prices_dataset v offline fs year month = (fs, False)"
  "update_latest_aggprices_dataset v offline fs year month = (fs, False)"
  using offline_download
  by (simp_all add: properties_download_fails prices_download_fails aggprices_download_fails)

theorem orchestration_returns_true:
  "snd (extract_monthly_data w fs year month)
   \<and> snd (run v w fs year month)
   \<and> update_latest_properties_dataset TopMonthly offline no_files 2024 3 = (no_files, False)
   \<and> update_latest_prices_dataset TopMonthly offline no_files 2024 3 = (no_files, False)
   \<and> update_latest_aggprices_dataset TopMonthly offline no_files 2024 3 = (no_files, False)
   \<and> extract_monthly_data offline no_files (Some 2024) (Some 3) = (no_files, True)
   \<and> run ApiMonthly offline no_files (Some 2024) (Some 3) = (no_files, True)"
proof (intro conjI)
  show "snd (extract_monthly_data w fs year month)"
    by (simp add: extract_monthly_data_def Let_def split_def)
  show "snd (run v w fs year month)"
    by (simp add: run_def Let_def split_def)
  show "extract_monthly_data offline no_files (Some 2024) (Some 3) = (no_files, True)"
    by (simp add: extract_monthly_data_def default_period_def offline_updates)
  show "run ApiMonthly offline no_files (Some 2024) (Some 3) = (no_files, True)"
    by (simp add: run_def default_period_def offline_updates)
qed (rule offline_updates)+

section \<open>The polling contract\<close>















section \<open>The town code of a building\<close>






section \<open>Merging the same period again\<close>

lemma aggprices_update_q1:
  assumes "now_iso w = ''2024-04-02T06:00:00''"
    and "snd (download_file v w ''d_b51323a474ba789fb4cc3db58a3116d4'' (Some 2024) None
                 (Some ''Q1'')) = Inr fetched"
    and "rows fetched \<noteq> []"
    and "latest_aggprices_file fs = map_option Holds existing"
    and "written (combined_aggprices existing fetched ''Q1'') = Inr (t, n)"
    and "writes_ok w"
  shows "update_latest_aggprices_dataset v w fs 2024 2 =
           (fs\<lparr>latest_aggprices_file := Some (Holds t),
               agg_prices_latest_metadata := sidecar ''2024-Q1'' n\<rparr>, True)"
  using aggprices_update_eq [where v = v and w = w and year = 2024 and month = 2 and fs = fs
      and existing = existing and fetched = fetched and t = t and n = n] assms
  by (simp add: quarter_of_february period_texts sidecar_def)

lemma prices_update_march:
  assumes "now_iso w = ''2024-04-02T06:00:00''"
    and "snd (download_file v w ''d_8b84c4ee58e3cfc0ece0d773c8ca6abc'' (Some 2024) (Some 3)
               None) = Inr fetched"
    and "rows fetched \<noteq> []"
    and "latest_prices_file fs = map_option Holds existing"
    and "written (combined_prices v existing fetched 2024 3) = Inr (t, n)"
    and "writes_ok w"
  shows "update_latest_prices_dataset v w fs 2024 3 =
           (fs\<lparr>latest_prices_file := Some (Holds t),
               prices_latest_metadata := sidecar ''2024-03'' n\<rparr>, True)"
  using prices_update_eq [where v = v and w = w and year = 2024 and month = 3 and fs = fs
      and existing = existing and fetched = fetched and t = t and n = n] assms
  by (simp add: period_texts sidecar_def)

lemma frames_nonempty:
  "rows q1_frame \<noteq> []" "rows march_frame \<noteq> []" "rows agg_batch_labelled \<noteq> []"
  by (simp_all add: q1_frame_def march_frame_def agg_batch_labelled_def)

lemma agg_store_merge:
  "update_latest_aggprices_dataset v w_agg agg_store 2024 2 = (agg_store_merged, True)"
  using aggprices_update_q1 [where w = w_agg and v = v and fs = agg_store
      and existing = "Some agg_table" and fetched = q1_frame and t = merged_agg_table and n = 3]
  by (simp add: clocks worlds_write q1_download aggprices_written_store frames_nonempty agg_store_def
        agg_store_merged_def)

lemma agg_store_merge_labelled:
  "update_latest_aggprices_dataset v w_agg_labelled agg_store 2024 2 = (agg_store_merged, True)"
  using aggprices_update_q1 [where w = w_agg_labelled and v = v and fs = agg_store
      and existing = "Some agg_table" and fetched = agg_batch_labelled
      and t = merged_agg_table and n = 3]
  by (simp add: clocks worlds_write q1_download_labelled aggprices_written_store frames_nonempty
        agg_store_def agg_store_merged_def)

text \<open>
  C1 (what the code does at the failing input). The store holds a row for 2023-Q4 and
  a row labelled \<open>2024-Q1\<close>; the update for February 2024 fetches the batch of
  2024-Q1, whose row is labelled \<open>2024-Q1\<close> (by the service, or by
  \<open>download_file\<close> when the column is absent). Both copies of
  \<open>update_latest_aggprices_dataset\<close> compare the stored labels with \<open>Q1\<close>, drop
  nothing, and write a store that holds the old row of 2024-Q1 beside the new one.
\<close>

theorem aggprices_stale_rows_survive:
  "update_latest_aggprices_dataset TopMonthly w_agg agg_store 2024 2 = (agg_store_merged, True)
   \<and> update_latest_aggprices_dataset ApiMonthly w_agg agg_store 2024 2 = (agg_store_merged, True)
   \<and> update_latest_aggprices_dataset TopMonthly w_agg_labelled agg_store 2024 2
       = (agg_store_merged, True)
   \<and> latest_aggprices_file agg_store_merged
       = Some (Holds \<lparr>columns = [''quarter'', ''town'', ''flat_type'', ''price''],
                       rows = [other_quarter_row, stale_row, fresh_row]\<rparr>)
   \<and> cell_at stale_row ''quarter'' = Str ''2024-Q1''
   \<and> cell_at fresh_row ''quarter'' = Str ''2024-Q1''
   \<and> quarter_str_of 2 = ''Q1''"
  using agg_store_merge [of TopMonthly] agg_store_merge [of ApiMonthly]
    agg_store_merge_labelled [of TopMonthly]
  by (simp add: quarter_of_february agg_store_merged_def agg_store_def merged_agg_table_def
        cell_at_def stale_row_def fresh_row_def)

lemma prices_first:
  "update_latest_prices_dataset v w_prices no_files 2024 3 = (prices_store v [price_row v], True)"
  using prices_update_march [where w = w_prices and v = v and fs = no_files and existing = None
      and fetched = march_frame and t = "price_table v [price_row v]" and n = 1]
  by (simp add: clocks worlds_write march_download prices_written_first frames_nonempty prices_store_def
        no_files_def)

lemma prices_second_top:
  "update_latest_prices_dataset TopMonthly w_prices (prices_store TopMonthly [price_row TopMonthly])
       2024 3
     = (prices_store TopMonthly [price_row TopMonthly, price_row TopMonthly], True)"
  using prices_update_march [where w = w_prices and v = TopMonthly
      and fs = "prices_store TopMonthly [price_row TopMonthly]"
      and existing = "Some (price_table TopMonthly [price_row TopMonthly])"
      and fetched = march_frame
      and t = "price_table TopMonthly [price_row TopMonthly, price_row TopMonthly]" and n = 2]
  by (simp add: clocks worlds_write march_download prices_written_second_top frames_nonempty prices_store_def
        numeral_2_eq_2)

lemma prices_second_daily:
  "update_latest_prices_dataset ApiDaily w_prices (prices_store ApiDaily [price_row ApiDaily]) 2024 3
     = (prices_store ApiDaily [price_row ApiDaily], True)"
  using prices_update_march [where w = w_prices and v = ApiDaily
      and fs = "prices_store ApiDaily [price_row ApiDaily]"
      and existing = "Some (price_table ApiDaily [price_row ApiDaily])"
      and fetched = march_frame
      and t = "price_table ApiDaily [price_row ApiDaily]" and n = 1]
  by (simp add: clocks worlds_write march_download prices_written_second_daily frames_nonempty prices_store_def)

lemma aggprices_first:
  "update_latest_aggprices_dataset v w_agg no_files 2024 2 = (aggprices_store [aggprice_row], True)"
  using aggprices_update_q1 [where w = w_agg and v = v and fs = no_files and existing = None
      and fetched = q1_frame and t = "aggprice_table [aggprice_row]" and n = 1]
  by (simp add: clocks worlds_write q1_download aggprices_written_first frames_nonempty aggprices_store_def
        no_files_def)

lemma aggprices_second:
  "update_latest_aggprices_dataset v w_agg (aggprices_store [aggprice_row]) 2024 2
     = (aggprices_store [aggprice_row, aggprice_row], True)"
  using aggprices_update_q1 [where w = w_agg and v = v and fs = "aggprices_store [aggprice_row]"
      and existing = "Some (aggprice_table [aggprice_row])"
      and fetched = q1_frame and t = "aggprice_table [aggprice_row, aggprice_row]" and n = 2]
  by (simp add: clocks worlds_write q1_download aggprices_written_second frames_nonempty aggprices_store_def
        numeral_2_eq_2)

lemma stores_differ:
  "prices_store v [r, r] \<noteq> prices_store v [r]" "aggprices_store [r, r] \<noteq> aggprices_store [r]"
proof -
  have "latest_prices_file (prices_store v [r, r]) \<noteq> latest_prices_file (prices_store v [r])"
    by (simp add: prices_store_def price_table_def)
  then show "prices_store v [r, r] \<noteq> prices_store v [r]" by metis
  have "latest_aggprices_file (aggprices_store [r, r]) \<noteq> latest_aggprices_file (aggprices_store [r])"
    by (simp add: aggprices_store_def aggprice_table_def)
  then show "aggprices_store [r, r] \<noteq> aggprices_store [r]" by metis
qed

lemma stores_hold:
  "latest_prices_file (prices_store v rs) = Some (Holds \<lparr>columns = map fst (price_row v), rows = rs\<rparr>)"
  "latest_aggprices_file (aggprices_store rs) = Some (Holds \<lparr>columns = map fst aggprice_row, rows = rs\<rparr>)"
  by (simp_all add: prices_store_def price_table_def aggprices_store_def aggprice_table_def)

text \<open>
  C2 (what the code does at the failing input). Merging the batch of March 2024 into
  an empty store and then merging the same batch again: the top-level copy of
  \<open>update_latest_prices_dataset\<close> ends with the row twice, since the file it wrote
  has the column \<open>date\<close> and it looks for \<open>month\<close>; the copy in
  \<open>api/daily_data_extractor.py\<close>, which looks for \<open>date\<close>, ends with the row
  once. \<open>update_latest_aggprices_dataset\<close> ends with the row of 2024-Q1 twice.
\<close>

theorem merge_twice_duplicates:
  "update_latest_prices_dataset TopMonthly w_prices no_files 2024 3
     = (prices_store TopMonthly [price_row TopMonthly], True)
   \<and> update_latest_prices_dataset TopMonthly w_prices
        (prices_store TopMonthly [price_row TopMonthly]) 2024 3
     = (prices_store TopMonthly [price_row TopMonthly, price_row TopMonthly], True)
   \<and> latest_prices_file (prices_store TopMonthly [price_row TopMonthly, price_row TopMonthly])
       = Some (Holds \<lparr>columns = map fst (price_row TopMonthly),
                       rows = [price_row TopMonthly, price_row TopMonthly]\<rparr>)
   \<and> prices_store TopMonthly [price_row TopMonthly, price_row TopMonthly]
       \<noteq> prices_store TopMonthly [price_row TopMonthly]
   \<and> update_latest_aggprices_dataset TopMonthly w_agg no_files 2024 2
     = (aggprices_store [aggprice_row], True)
   \<and> update_latest_aggprices_dataset TopMonthly w_agg (aggprices_store [aggprice_row]) 2024 2
     = (aggprices_store [aggprice_row, aggprice_row], True)
   \<and> latest_aggprices_file (aggprices_store [aggprice_row, aggprice_row])
       = Some (Holds \<lparr>columns = map fst aggprice_row, rows = [aggprice_row, aggprice_row]\<rparr>)
   \<and> aggprices_store [aggprice_row, aggprice_row] \<noteq> aggprices_store [aggprice_row]
   \<and> update_latest_prices_dataset ApiDaily w_prices no_files 2024 3
     = (prices_store ApiDaily [price_row ApiDaily], True)
   \<and> update_latest_prices_dataset ApiDaily w_prices (prices_store ApiDaily [price_row ApiDaily])
        2024 3
     = (prices_store ApiDaily [price_row ApiDaily], True)"
  using prices_first prices_second_top prices_second_daily aggprices_first aggprices_second
    stores_differ stores_hold
  by simp

end
